theory Spec2Isabelle
  imports Main "HOL-Library.AList"
begin

section \<open>Strings\<close>

text \<open>
  Strings are lists of 8-bit characters. The white space removed by Go's
  \<^verbatim>\<open>strings.TrimSpace\<close> and by JavaScript's \<^verbatim>\<open>String.prototype.trim\<close> is, among the
  ASCII characters, the same set: space, tab, line feed, vertical tab, form feed and
  carriage return. White space outside ASCII is not modelled.
\<close>

definition is_space :: "char \<Rightarrow> bool" where
  "is_space c =
     (c = CHR '' '' \<or> c = CHR 0x09 \<or> c = CHR 0x0A \<or> c = CHR 0x0B \<or> c = CHR 0x0C \<or> c = CHR 0x0D)"

definition trim :: "string \<Rightarrow> string" where
  "trim s = rev (dropWhile is_space (rev (dropWhile is_space s)))"

text \<open>
  \<^verbatim>\<open>strings.Split(s, ",")\<close> and \<^verbatim>\<open>s.split(',')\<close>: the pieces between the separators, in
  order; the empty string gives one empty piece.
\<close>

fun split_on :: "char \<Rightarrow> string \<Rightarrow> string list" where
  "split_on c [] = [[]]"
| "split_on c (x # xs) =
     (if x = c then [] # split_on c xs
      else (case split_on c xs of
              [] \<Rightarrow> [[x]]
            | y # ys \<Rightarrow> (x # y) # ys))"

text \<open>\<^verbatim>\<open>s.indexOf(c)\<close>: the index of the first \<open>c\<close>; \<open>None\<close> stands for \<open>-1\<close>.\<close>

fun indexOf :: "string \<Rightarrow> char \<Rightarrow> nat option" where
  "indexOf [] c = None"
| "indexOf (x # xs) c = (if x = c then Some 0 else map_option Suc (indexOf xs c))"

text \<open>
  \<^verbatim>\<open>strings.IndexAny(s, chars)\<close>: the index of the first character of \<open>s\<close> that is one of
  \<open>chars\<close>; \<open>None\<close> stands for \<open>-1\<close>.
\<close>

fun IndexAny :: "string \<Rightarrow> string \<Rightarrow> nat option" where
  "IndexAny [] chars = None"
| "IndexAny (x # xs) chars =
     (if x \<in> set chars then Some 0 else map_option Suc (IndexAny xs chars))"

section \<open>The TypeScript configuration parser (\<^verbatim>\<open>RPCConfigParser\<close>)\<close>

subsection \<open>URL lists\<close>

text \<open>
  \<^verbatim>\<open>new URL(s)\<close> belongs to the platform. It is a parameter \<open>url_protocol\<close> of the model:
  \<open>url_protocol s = Some p\<close> when the constructor succeeds and the URL's
  \<^verbatim>\<open>protocol\<close> is \<open>p\<close> (with its colon), \<open>None\<close> when it throws.

  \<^verbatim>\<open>console.warn\<close> is modelled by the list of lines written, returned next to the value.
\<close>

datatype js_error = Error string

datatype url_input = UrlString string | UrlList "string list"

definition isValidUrl :: "(string \<Rightarrow> string option) \<Rightarrow> string \<Rightarrow> bool \<times> string list" where
  "isValidUrl url_protocol urlString =
     (case url_protocol urlString of
        Some protocol \<Rightarrow> (protocol = ''http:'' \<or> protocol = ''https:'', [])
      | None \<Rightarrow> (False, [''[WARN]  Invalid RPC URL skipped: '' @ urlString]))"

text \<open>
  \<^verbatim>\<open>urls.filter(url => this.isValidUrl(url))\<close>: the candidates kept, and the warnings
  written on the way, both in the order of the candidates.
\<close>

fun filter_isValidUrl ::
  "(string \<Rightarrow> string option) \<Rightarrow> string list \<Rightarrow> string list \<times> string list" where
  "filter_isValidUrl url_protocol [] = ([], [])"
| "filter_isValidUrl url_protocol (url # urls) =
     (let (ok, w) = isValidUrl url_protocol url;
          (validUrls, ws) = filter_isValidUrl url_protocol urls
      in (if ok then url # validUrls else validUrls, w @ ws))"

definition candidates :: "url_input \<Rightarrow> string list" where
  "candidates input =
     (case input of
        UrlList xs \<Rightarrow> xs
      | UrlString s \<Rightarrow> map trim (split_on CHR '','' s))"

definition parseUrls ::
  "(string \<Rightarrow> string option) \<Rightarrow> url_input \<Rightarrow> string list \<times> (js_error + string list)" where
  "parseUrls url_protocol input =
     (let (validUrls, warnings) = filter_isValidUrl url_protocol (candidates input)
      in if length validUrls = 0
         then (warnings, Inl (Error ''No valid RPC URLs provided''))
         else (warnings, Inr validUrls))"

subsection \<open>Headers\<close>

text \<open>
  \<^verbatim>\<open>JSON.parse\<close> belongs to the platform too: the parameter \<open>JSON_parse\<close> gives the value
  parsed, \<open>None\<close> when it throws. A number is represented by the text \<^verbatim>\<open>String(n)\<close> gives
  for it; an object by its entries in the order \<^verbatim>\<open>Object.entries\<close> lists them.
\<close>

datatype json =
    JNull
  | JBool bool
  | JNum string
  | JStr string
  | JArr "json list"
  | JObj "(string \<times> json) list"

fun join :: "string \<Rightarrow> string list \<Rightarrow> string" where
  "join sep [] = []"
| "join sep [x] = x"
| "join sep (x # y # ys) = x @ sep @ join sep (y # ys)"

text \<open>\<^verbatim>\<open>String(value)\<close> on a parsed value.\<close>

fun String :: "json \<Rightarrow> string" where
  "String JNull = ''null''"
| "String (JBool b) = (if b then ''true'' else ''false'')"
| "String (JNum s) = s"
| "String (JStr s) = s"
| "String (JArr xs) = join '','' (map (\<lambda>x. if x = JNull then [] else String x) xs)"
| "String (JObj kvs) = ''[object Object]''"

fun digit :: "nat \<Rightarrow> char" where
  "digit n = char_of (48 + n)"

function show_nat :: "nat \<Rightarrow> string" where
  "show_nat n = (if n < 10 then [digit n] else show_nat (n div 10) @ [digit (n mod 10)])"
  by pat_completeness auto
termination
  by (relation "measure id") auto

declare show_nat.simps [simp del]

text \<open>
  \<^verbatim>\<open>obj && typeof obj === 'object'\<close> holds of objects and of arrays (not of \<^verbatim>\<open>null\<close>, which
  is falsy); \<^verbatim>\<open>Object.entries\<close> of an array pairs each index, as a string, with its element.
\<close>

fun entries :: "json \<Rightarrow> (string \<times> json) list option" where
  "entries (JObj kvs) = Some kvs"
| "entries (JArr xs) = Some (zip (map show_nat [0..<length xs]) xs)"
| "entries _ = None"

text \<open>
  \<^verbatim>\<open>headers[key] = value\<close> on a record is \<open>AList.update\<close>: it replaces the value of a key
  that is there and adds a new key at the end.
\<close>

definition sepIdx :: "string \<Rightarrow> nat option" where
  "sepIdx pair =
     (case indexOf pair CHR ''='' of
        Some i \<Rightarrow> Some i
      | None \<Rightarrow> indexOf pair CHR '':'')"

definition add_pair :: "string \<Rightarrow> (string \<times> string) list \<Rightarrow> (string \<times> string) list" where
  "add_pair pair headers =
     (case sepIdx pair of
        None \<Rightarrow> headers
      | Some i \<Rightarrow>
          (let key = trim (take i pair);
               value = trim (drop (i + 1) pair)
           in if key \<noteq> [] \<and> value \<noteq> [] then AList.update key value headers else headers))"

definition parseHeaders :: "(string \<Rightarrow> json option) \<Rightarrow> string \<Rightarrow> (string \<times> string) list" where
  "parseHeaders JSON_parse input =
     (case (case JSON_parse input of None \<Rightarrow> None | Some obj \<Rightarrow> entries obj) of
        Some kvs \<Rightarrow> fold (\<lambda>(key, value) headers. AList.update key (String value) headers) kvs []
      | None \<Rightarrow> fold add_pair (split_on CHR '','' input) [])"

subsection \<open>Loading the configuration\<close>

text \<open>
  Numbers are modelled by integers. \<^verbatim>\<open>process.env\<close> is passed in as a record of the two
  variables read.
\<close>

datatype header_input = HeaderString string | HeaderRecord "(string \<times> string) list"

record load_options =
  opt_rpc :: "url_input option"
  opt_timeout :: "int option"
  opt_retries :: "int option"
  opt_headers :: "header_input option"

record process_env =
  STELLAR_RPC_URLS :: "string option"
  STELLAR_RPC_HEADERS :: "string option"

record RPCConfig =
  cfg_urls :: "string list"
  cfg_timeout :: int
  cfg_retries :: int
  cfg_retryDelay :: int
  cfg_circuitBreakerThreshold :: int
  cfg_circuitBreakerTimeout :: int
  cfg_maxRedirects :: int
  cfg_headers :: "(string \<times> string) list option"

text \<open>
  JavaScript truthiness of the values met here: \<^verbatim>\<open>undefined\<close>, the empty string and the
  number zero are falsy; every array and every object is truthy.
\<close>

fun truthy_url_input :: "url_input option \<Rightarrow> bool" where
  "truthy_url_input None = False"
| "truthy_url_input (Some (UrlString s)) = (s \<noteq> [])"
| "truthy_url_input (Some (UrlList xs)) = True"

fun truthy_string :: "string option \<Rightarrow> bool" where
  "truthy_string None = False"
| "truthy_string (Some s) = (s \<noteq> [])"

fun truthy_header_input :: "header_input option \<Rightarrow> bool" where
  "truthy_header_input None = False"
| "truthy_header_input (Some (HeaderString s)) = (s \<noteq> [])"
| "truthy_header_input (Some (HeaderRecord r)) = True"

text \<open>\<^verbatim>\<open>options.rpc || process.env.STELLAR_RPC_URLS\<close>\<close>

definition urlInput :: "load_options \<Rightarrow> process_env \<Rightarrow> url_input option" where
  "urlInput options env =
     (if truthy_url_input (opt_rpc options) then opt_rpc options
      else map_option UrlString (STELLAR_RPC_URLS env))"

text \<open>\<^verbatim>\<open>x || d\<close> on an optional number.\<close>

fun or_default :: "int option \<Rightarrow> int \<Rightarrow> int" where
  "or_default None d = d"
| "or_default (Some n) d = (if n = 0 then d else n)"

definition resolve_headers ::
  "(string \<Rightarrow> json option) \<Rightarrow> load_options \<Rightarrow> process_env \<Rightarrow> (string \<times> string) list option" where
  "resolve_headers JSON_parse options env =
     (if truthy_header_input (opt_headers options) then
        (case opt_headers options of
           Some (HeaderString s) \<Rightarrow> Some (parseHeaders JSON_parse s)
         | Some (HeaderRecord r) \<Rightarrow> Some r
         | None \<Rightarrow> None)
      else if truthy_string (STELLAR_RPC_HEADERS env) then
        (case STELLAR_RPC_HEADERS env of
           Some s \<Rightarrow> Some (parseHeaders JSON_parse s)
         | None \<Rightarrow> None)
      else None)"

definition loadConfig ::
  "(string \<Rightarrow> string option) \<Rightarrow> (string \<Rightarrow> json option) \<Rightarrow> load_options \<Rightarrow> process_env
     \<Rightarrow> string list \<times> (js_error + RPCConfig)" where
  "loadConfig url_protocol JSON_parse options env =
     (if \<not> truthy_url_input (urlInput options env) then
        ([], Inl (Error ''No RPC URLs configured. Use --rpc flag or STELLAR_RPC_URLS env variable''))
      else
        (case urlInput options env of
           None \<Rightarrow>
             ([], Inl (Error ''No RPC URLs configured. Use --rpc flag or STELLAR_RPC_URLS env variable''))
         | Some input \<Rightarrow>
             (case parseUrls url_protocol input of
                (warnings, Inl e) \<Rightarrow> (warnings, Inl e)
              | (warnings, Inr urls) \<Rightarrow>
                  (let hdrs = resolve_headers JSON_parse options env;
                       cfg = \<lparr> cfg_urls = urls,
                               cfg_timeout = or_default (opt_timeout options) 30000,
                               cfg_retries = or_default (opt_retries options) 3,
                               cfg_retryDelay = 1000,
                               cfg_circuitBreakerThreshold = 5,
                               cfg_circuitBreakerTimeout = 60000,
                               cfg_maxRedirects = 5,
                               cfg_headers = None \<rparr>
                   in (case hdrs of
                         None \<Rightarrow> (warnings, Inr cfg)
                       | Some h \<Rightarrow>
                           if length h > 0 then (warnings, Inr (cfg\<lparr>cfg_headers := Some h\<rparr>))
                           else (warnings, Inr cfg))))))"

section \<open>The Go client builder (\<^verbatim>\<open>internal/rpc/builder.go\<close>)\<close>

subsection \<open>Data\<close>

text \<open>
  \<^verbatim>\<open>Network\<close> is a string type. The record \<open>NetworkConfig\<close>, the network constants and
  the URL check \<^verbatim>\<open>isValidURL\<close> are declared in other files of the package: the fields used
  by the builder are listed, and the constants and the check are parameters, collected
  in \<open>go_env\<close> together with the environment variable read by \<^verbatim>\<open>os.Getenv\<close>.
  \<open>isValidURL env u\<close> is \<open>None\<close> for \<^verbatim>\<open>nil\<close> and \<open>Some msg\<close> for an error with text \<open>msg\<close>.
\<close>

datatype error = ValidationError string | OtherError string

record NetworkConfig =
  Name :: string
  net_HorizonURL :: string
  SorobanRPCURL :: string
  NetworkPassphrase :: string

record go_env =
  Mainnet :: string
  Testnet :: string
  Futurenet :: string
  MainnetHorizonURL :: string
  TestnetHorizonURL :: string
  FuturenetHorizonURL :: string
  MainnetSorobanURL :: string
  TestnetSorobanURL :: string
  FuturenetSorobanURL :: string
  MainnetConfig :: NetworkConfig
  TestnetConfig :: NetworkConfig
  FuturenetConfig :: NetworkConfig
  isValidURL :: "string \<Rightarrow> string option"
  ERST_RPC_TOKEN :: string

text \<open>
  An \<^verbatim>\<open>*http.Client\<close> is either the one \<^verbatim>\<open>createHTTPClient(token, headers, timeout)\<close>
  makes or one injected by the caller, known by a handle.
\<close>

datatype http_client =
    createHTTPClient string "(string \<times> string) list" int
  | InjectedHTTPClient nat

record clientBuilder =
  network :: string
  token :: string
  horizonURL :: string
  sorobanURL :: string
  altURLs :: "string list"
  cacheEnabled :: bool
  config :: "NetworkConfig option"
  httpClient :: "http_client option"
  requestTimeout :: int
  headers :: "(string \<times> string) list"

record horizon_client =
  hc_HorizonURL :: string
  HTTP :: "http_client option"

text \<open>
  The two maps of the client, \<^verbatim>\<open>failures\<close> and \<^verbatim>\<open>lastFailure\<close>, are association lists;
  a \<^verbatim>\<open>time.Time\<close> is a number of milliseconds.
\<close>

record Client =
  HorizonURL :: string
  Horizon :: horizon_client
  Network :: string
  SorobanURL :: string
  AltURLs :: "string list"
  client_httpClient :: "http_client option"
  client_token :: string
  Config :: NetworkConfig
  CacheEnabled :: bool
  Headers :: "(string \<times> string) list"
  failures :: "(string \<times> int) list"
  lastFailure :: "(string \<times> int) list"

text \<open>
  A \<^verbatim>\<open>ClientOption\<close> is a \<^verbatim>\<open>func(*clientBuilder) error\<close>: it may change the builder it is
  given and returns \<^verbatim>\<open>nil\<close> (\<open>None\<close>) or an error.
\<close>

type_synonym ClientOption = "clientBuilder \<Rightarrow> error option \<times> clientBuilder"

subsection \<open>Options\<close>

definition defaultHTTPTimeout :: int where
  "defaultHTTPTimeout = 15 * 1000000000"

definition newBuilder :: "go_env \<Rightarrow> clientBuilder" where
  "newBuilder env =
     \<lparr> network = Mainnet env,
       token = [],
       horizonURL = [],
       sorobanURL = [],
       altURLs = [],
       cacheEnabled = True,
       config = None,
       httpClient = None,
       requestTimeout = defaultHTTPTimeout,
       headers = [] \<rparr>"

definition WithNetwork :: "go_env \<Rightarrow> string \<Rightarrow> ClientOption" where
  "WithNetwork env net b = (None, b\<lparr>network := (if net = [] then Mainnet env else net)\<rparr>)"

definition WithToken :: "string \<Rightarrow> ClientOption" where
  "WithToken t b = (None, b\<lparr>token := t\<rparr>)"

definition WithHeaders :: "(string \<times> string) list \<Rightarrow> ClientOption" where
  "WithHeaders h b = (None, b\<lparr>headers := h\<rparr>)"

definition WithHorizonURL :: "go_env \<Rightarrow> string \<Rightarrow> ClientOption" where
  "WithHorizonURL env url b =
     (case (if url \<noteq> [] then isValidURL env url else None) of
        Some err \<Rightarrow> (Some (ValidationError (''invalid HorizonURL: '' @ err)), b)
      | None \<Rightarrow> (None, b\<lparr>horizonURL := url, altURLs := [url]\<rparr>))"

text \<open>The loop of \<^verbatim>\<open>WithAltURLs\<close>: the error of the first URL that fails the check.\<close>

fun first_invalid :: "go_env \<Rightarrow> string list \<Rightarrow> string option" where
  "first_invalid env [] = None"
| "first_invalid env (url # urls) =
     (case isValidURL env url of
        Some err \<Rightarrow> Some err
      | None \<Rightarrow> first_invalid env urls)"

definition WithAltURLs :: "go_env \<Rightarrow> string list \<Rightarrow> ClientOption" where
  "WithAltURLs env urls b =
     (case first_invalid env urls of
        Some err \<Rightarrow> (Some (ValidationError (''invalid URL in altURLs: '' @ err)), b)
      | None \<Rightarrow>
          (case urls of
             [] \<Rightarrow> (None, b)
           | u # us \<Rightarrow> (None, b\<lparr>altURLs := urls, horizonURL := u\<rparr>)))"

definition WithSorobanURL :: "go_env \<Rightarrow> string \<Rightarrow> ClientOption" where
  "WithSorobanURL env url b =
     (case (if url \<noteq> [] then isValidURL env url else None) of
        Some err \<Rightarrow> (Some (ValidationError (''invalid SorobanURL: '' @ err)), b)
      | None \<Rightarrow> (None, b\<lparr>sorobanURL := url\<rparr>))"

text \<open>
  Modelled from the spec: \<^verbatim>\<open>ValidateNetworkConfig\<close>, which is defined in another file of the package. It "fails
  if name is empty, primary URL fails [the URL check], or passphrase is empty".
\<close>

definition ValidateNetworkConfig :: "go_env \<Rightarrow> NetworkConfig \<Rightarrow> string option" where
  "ValidateNetworkConfig env cfg =
     (if Name cfg = [] then Some ''network name is required''
      else (case isValidURL env (net_HorizonURL cfg) of
              Some err \<Rightarrow> Some err
            | None \<Rightarrow>
                if NetworkPassphrase cfg = [] then Some ''network passphrase is required''
                else None))"

definition WithNetworkConfig :: "go_env \<Rightarrow> NetworkConfig \<Rightarrow> ClientOption" where
  "WithNetworkConfig env cfg b =
     (case ValidateNetworkConfig env cfg of
        Some err \<Rightarrow> (Some (ValidationError (''invalid network config: '' @ err)), b)
      | None \<Rightarrow>
          (None, b\<lparr>config := Some cfg,
                    network := Name cfg,
                    horizonURL := net_HorizonURL cfg,
                    sorobanURL := SorobanRPCURL cfg\<rparr>))"

definition WithCacheEnabled :: "bool \<Rightarrow> ClientOption" where
  "WithCacheEnabled enabled b = (None, b\<lparr>cacheEnabled := enabled\<rparr>)"

definition WithRequestTimeout :: "int \<Rightarrow> ClientOption" where
  "WithRequestTimeout d b = (None, b\<lparr>requestTimeout := d\<rparr>)"

definition WithHTTPClient :: "http_client option \<Rightarrow> ClientOption" where
  "WithHTTPClient client b = (None, b\<lparr>httpClient := client\<rparr>)"

subsection \<open>Construction\<close>

definition getDefaultHorizonURL :: "go_env \<Rightarrow> string \<Rightarrow> string" where
  "getDefaultHorizonURL env net =
     (if net = Testnet env then TestnetHorizonURL env
      else if net = Futurenet env then FuturenetHorizonURL env
      else MainnetHorizonURL env)"

definition getDefaultSorobanURL :: "go_env \<Rightarrow> string \<Rightarrow> string" where
  "getDefaultSorobanURL env net =
     (if net = Testnet env then TestnetSorobanURL env
      else if net = Futurenet env then FuturenetSorobanURL env
      else MainnetSorobanURL env)"

definition getConfig :: "go_env \<Rightarrow> string \<Rightarrow> NetworkConfig" where
  "getConfig env net =
     (if net = Testnet env then TestnetConfig env
      else if net = Futurenet env then FuturenetConfig env
      else MainnetConfig env)"

definition validate :: "go_env \<Rightarrow> clientBuilder \<Rightarrow> error option \<times> clientBuilder" where
  "validate env b =
     (let b1 = (if network b = [] then b\<lparr>network := Mainnet env\<rparr> else b);
          b2 = (if horizonURL b1 = [] \<and> sorobanURL b1 = []
                then b1\<lparr>horizonURL := getDefaultHorizonURL env (network b1)\<rparr> else b1)
      in (None, b2))"

definition build :: "go_env \<Rightarrow> clientBuilder \<Rightarrow> error + Client" where
  "build env b =
     (let b1 = (if sorobanURL b = [] then b\<lparr>sorobanURL := getDefaultSorobanURL env (network b)\<rparr> else b);
          cfg = (case config b1 of None \<Rightarrow> getConfig env (network b1) | Some c \<Rightarrow> c);
          http = (case httpClient b1 of
                    None \<Rightarrow> Some (createHTTPClient (token b1) (headers b1) (requestTimeout b1))
                  | Some h \<Rightarrow> Some h);
          b2 = (if length (altURLs b1) = 0 \<and> horizonURL b1 \<noteq> []
                then b1\<lparr>altURLs := [horizonURL b1]\<rparr> else b1);
          b3 = (if horizonURL b2 = [] then b2\<lparr>horizonURL := net_HorizonURL cfg\<rparr> else b2);
          b4 = (if length (altURLs b3) = 0 then b3\<lparr>altURLs := [horizonURL b3]\<rparr> else b3)
      in Inr \<lparr> HorizonURL = horizonURL b4,
               Horizon = \<lparr> hc_HorizonURL = horizonURL b4, HTTP = http \<rparr>,
               Network = network b4,
               SorobanURL = sorobanURL b4,
               AltURLs = altURLs b4,
               client_httpClient = http,
               client_token = token b4,
               Config = cfg,
               CacheEnabled = cacheEnabled b4,
               Headers = headers b4,
               failures = [],
               lastFailure = [] \<rparr>)"

text \<open>
  The loop of \<^verbatim>\<open>NewClient\<close> over its options: it stops at the first error, and returns the
  builder as it is when the loop ends.
\<close>

fun apply_options :: "ClientOption list \<Rightarrow> clientBuilder \<Rightarrow> error option \<times> clientBuilder" where
  "apply_options [] b = (None, b)"
| "apply_options (opt # opts) b =
     (case opt b of
        (Some err, b') \<Rightarrow> (Some err, b')
      | (None, b') \<Rightarrow> apply_options opts b')"

definition initial_builder :: "go_env \<Rightarrow> clientBuilder" where
  "initial_builder env =
     (let builder = newBuilder env
      in if token builder = [] then builder\<lparr>token := ERST_RPC_TOKEN env\<rparr> else builder)"

definition NewClient :: "go_env \<Rightarrow> ClientOption list \<Rightarrow> error + Client" where
  "NewClient env opts =
     (case apply_options opts (initial_builder env) of
        (Some err, b) \<Rightarrow> Inl err
      | (None, b) \<Rightarrow>
          (case validate env b of
             (Some err, b') \<Rightarrow> Inl err
           | (None, b') \<Rightarrow> build env b'))"

subsection \<open>Header strings\<close>

text \<open>
  \<^verbatim>\<open>json.Unmarshal([]byte(input), &obj)\<close> with \<^verbatim>\<open>obj\<close> a \<^verbatim>\<open>map[string]string\<close> belongs to
  the standard library: the parameter \<open>json_Unmarshal\<close> gives \<open>Some obj\<close> when the error
  returned is \<^verbatim>\<open>nil\<close> and \<open>None\<close> otherwise.
\<close>

definition add_part :: "string \<Rightarrow> (string \<times> string) list \<Rightarrow> (string \<times> string) list" where
  "add_part part0 hdrs =
     (let part = trim part0
      in if part = [] then hdrs
         else (case IndexAny part ''=:'' of
                 None \<Rightarrow> hdrs
               | Some idx \<Rightarrow>
                   (let key = trim (take idx part);
                        value = trim (drop (idx + 1) part)
                    in if key \<noteq> [] \<and> value \<noteq> [] then AList.update key value hdrs else hdrs)))"

definition ParseHeaders ::
  "(string \<Rightarrow> (string \<times> string) list option) \<Rightarrow> string \<Rightarrow> (string \<times> string) list" where
  "ParseHeaders json_Unmarshal input =
     (if input = [] then []
      else (case json_Unmarshal input of
              Some obj \<Rightarrow> obj
            | None \<Rightarrow> fold add_part (split_on CHR '','' input) []))"

subsection \<open>The rule for a segment, in the words of the spec\<close>

text \<open>
  The spec describes the parsing of delimited pairs as follows: "split on ","; for each
  segment, locate the first "=" or ":" (whichever occurs first), split into key/value,
  trim whitespace; a segment without a separator, or with an empty key or value after
  trimming, is silently skipped." The three definitions below follow these words; they
  are compared with the parsers in the section on the header parsers.
\<close>

definition is_separator :: "char \<Rightarrow> bool" where
  "is_separator c = (c = CHR ''='' \<or> c = CHR '':'')"

definition spec_segment :: "string \<Rightarrow> (string \<times> string) option" where
  "spec_segment seg =
     (let before = takeWhile (\<lambda>c. \<not> is_separator c) seg;
          from_sep = dropWhile (\<lambda>c. \<not> is_separator c) seg
      in if from_sep = [] then None
         else (let key = trim before; value = trim (tl from_sep)
               in if key = [] \<or> value = [] then None else Some (key, value)))"

definition spec_pairs :: "string \<Rightarrow> (string \<times> string) list" where
  "spec_pairs input =
     fold (\<lambda>seg hdrs. case spec_segment seg of None \<Rightarrow> hdrs | Some (k, v) \<Rightarrow> AList.update k v hdrs)
       (split_on CHR '','' input) []"

section \<open>The endpoint failure tracker\<close>

text \<open>
  The builder creates the two maps of the client, \<^verbatim>\<open>failures\<close> and \<^verbatim>\<open>lastFailure\<close>, both
  empty; the functions that read and write them are defined outside \<^verbatim>\<open>builder.go\<close>. The
  operations of the tracker are therefore modelled from the spec, on the two maps of
  the client. The clock is read by the caller and passed in as \<open>now\<close>.
\<close>

text \<open>
  Modelled from the spec: the three states of an endpoint (the functions of the tracker
  are defined outside \<^verbatim>\<open>builder.go\<close>). "CLOSED (eligible, default)", "OPEN (ineligible)",
  "HALF_OPEN (eligible for exactly one probe request)".
\<close>

datatype breaker_state = CLOSED | OPEN | HALF_OPEN

text \<open>
  Modelled from the spec: the count of an endpoint (the functions of the tracker are
  defined outside \<^verbatim>\<open>builder.go\<close>). "FailureState: per endpoint URL, {consecutiveFailures
  \<ge> 0, lastFailureAt: optional timestamp}. Lazily created at zero".
\<close>

definition consecutiveFailures :: "Client \<Rightarrow> string \<Rightarrow> int" where
  "consecutiveFailures c url = (case map_of (failures c) url of None \<Rightarrow> 0 | Some n \<Rightarrow> n)"

text \<open>
  Modelled from the spec: \<^verbatim>\<open>recordFailure\<close>, which is defined outside \<^verbatim>\<open>builder.go\<close>.
  "recordFailure(url): consecutiveFailures[url] += 1; lastFailureAt[url] = now."
\<close>

definition recordFailure :: "Client \<Rightarrow> string \<Rightarrow> int \<Rightarrow> Client" where
  "recordFailure c url now =
     c\<lparr>failures := AList.update url (consecutiveFailures c url + 1) (failures c),
       lastFailure := AList.update url now (lastFailure c)\<rparr>"

text \<open>
  Modelled from the spec: \<^verbatim>\<open>recordSuccess\<close>, which is defined outside \<^verbatim>\<open>builder.go\<close>.
  "recordSuccess(url): consecutiveFailures[url] = 0; lastFailureAt[url] cleared."
\<close>

definition recordSuccess :: "Client \<Rightarrow> string \<Rightarrow> Client" where
  "recordSuccess c url =
     c\<lparr>failures := AList.update url 0 (failures c),
       lastFailure := AList.delete url (lastFailure c)\<rparr>"

text \<open>
  Modelled from the spec: the state of an endpoint at time \<open>now\<close> (the functions of the
  tracker are defined outside \<^verbatim>\<open>builder.go\<close>). "CLOSED (eligible, default) \<rightarrow> after
  circuitBreakerThreshold consecutive recorded failures \<rightarrow> OPEN (ineligible). OPEN \<rightarrow>
  once circuitBreakerTimeout has elapsed since lastFailureAt \<rightarrow> HALF_OPEN". An endpoint
  with no failure recorded is in the default state.
\<close>

definition state_of :: "int \<Rightarrow> int \<Rightarrow> Client \<Rightarrow> string \<Rightarrow> int \<Rightarrow> breaker_state" where
  "state_of circuitBreakerThreshold circuitBreakerTimeout c url now =
     (if consecutiveFailures c url < circuitBreakerThreshold then CLOSED
      else (case map_of (lastFailure c) url of
              None \<Rightarrow> CLOSED
            | Some lastFailureAt \<Rightarrow>
                if circuitBreakerTimeout \<le> now - lastFailureAt then HALF_OPEN else OPEN))"

text \<open>
  Modelled from the spec: \<^verbatim>\<open>isEligible\<close>, which is defined outside \<^verbatim>\<open>builder.go\<close>. An endpoint
  is eligible when it is CLOSED or HALF_OPEN, and ineligible when it is OPEN.
\<close>

definition isEligible :: "int \<Rightarrow> int \<Rightarrow> Client \<Rightarrow> string \<Rightarrow> int \<Rightarrow> bool" where
  "isEligible circuitBreakerThreshold circuitBreakerTimeout c url now =
     (case state_of circuitBreakerThreshold circuitBreakerTimeout c url now of
        CLOSED \<Rightarrow> True
      | OPEN \<Rightarrow> False
      | HALF_OPEN \<Rightarrow> True)"

text \<open>A sequence of tracker operations, each failure with the time it is recorded at.\<close>

datatype tracker_op = RecordFailure string int | RecordSuccess string

fun apply_op :: "tracker_op \<Rightarrow> Client \<Rightarrow> Client" where
  "apply_op (RecordFailure url now) c = recordFailure c url now"
| "apply_op (RecordSuccess url) c = recordSuccess c url"

definition run_ops :: "tracker_op list \<Rightarrow> Client \<Rightarrow> Client" where
  "run_ops ops c = fold apply_op ops c"

fun is_failure_of :: "string \<Rightarrow> tracker_op \<Rightarrow> bool" where
  "is_failure_of url (RecordFailure u t) = (u = url)"
| "is_failure_of url (RecordSuccess u) = False"

fun is_success_of :: "string \<Rightarrow> tracker_op \<Rightarrow> bool" where
  "is_success_of url (RecordFailure u t) = False"
| "is_success_of url (RecordSuccess u) = (u = url)"

section \<open>Reference decoders\<close>

text \<open>
  The theorems below hold for every URL parser and every JSON decoder. To run the
  functions on examples, this section gives decoders for a fragment of each syntax:
  URLs of the plain shape \<^verbatim>\<open>scheme://host[:port][/...]\<close>, and JSON objects whose values
  are strings without escapes, integers, \<^verbatim>\<open>true\<close>, \<^verbatim>\<open>false\<close> or \<^verbatim>\<open>null\<close>. Text outside the
  fragment is reported as a syntax error, so the decoders are used only on text that is
  in the fragment or is no URL, respectively no JSON, at all.
\<close>

definition is_alpha :: "char \<Rightarrow> bool" where
  "is_alpha c =
     ((65 \<le> (of_char c :: nat) \<and> (of_char c :: nat) \<le> 90)
      \<or> (97 \<le> (of_char c :: nat) \<and> (of_char c :: nat) \<le> 122))"

definition is_digit :: "char \<Rightarrow> bool" where
  "is_digit c = (48 \<le> (of_char c :: nat) \<and> (of_char c :: nat) \<le> 57)"

definition to_lower :: "char \<Rightarrow> char" where
  "to_lower c =
     (if 65 \<le> (of_char c :: nat) \<and> (of_char c :: nat) \<le> 90
      then char_of ((of_char c :: nat) + 32) else c)"

definition scheme_char :: "char \<Rightarrow> bool" where
  "scheme_char c = (is_alpha c \<or> is_digit c \<or> c = CHR ''+'' \<or> c = CHR ''-'' \<or> c = CHR ''.'')"

definition host_char :: "char \<Rightarrow> bool" where
  "host_char c = (is_alpha c \<or> is_digit c \<or> c = CHR ''-'' \<or> c = CHR ''.'')"

definition url_scheme :: "string \<Rightarrow> string option" where
  "url_scheme s =
     (let sch = takeWhile (\<lambda>c. c \<noteq> CHR '':'') s;
          rest = dropWhile (\<lambda>c. c \<noteq> CHR '':'') s;
          hostport = takeWhile (\<lambda>c. c \<notin> set ''/?#'') (drop 3 rest);
          host = takeWhile (\<lambda>c. c \<noteq> CHR '':'') hostport;
          port = drop 1 (dropWhile (\<lambda>c. c \<noteq> CHR '':'') hostport)
      in if sch \<noteq> [] \<and> is_alpha (hd sch) \<and> list_all scheme_char sch
            \<and> take 3 rest = ''://''
            \<and> host \<noteq> [] \<and> is_alpha (hd host) \<and> list_all host_char host
            \<and> list_all is_digit port
         then Some (map to_lower sch) else None)"

text \<open>
  \<^verbatim>\<open>new URL(s).protocol\<close> on the fragment: the URL parser of the platform first removes
  leading and trailing control characters and spaces.
\<close>

definition is_c0_or_space :: "char \<Rightarrow> bool" where
  "is_c0_or_space c = ((of_char c :: nat) \<le> 32)"

definition url_protocol_ref :: "string \<Rightarrow> string option" where
  "url_protocol_ref s =
     map_option (\<lambda>sch. sch @ '':'')
       (url_scheme (rev (dropWhile is_c0_or_space (rev (dropWhile is_c0_or_space s)))))"

text \<open>
  Modelled from the spec: \<^verbatim>\<open>isValidURL\<close>, which is defined in another file of the package. A string is "valid
  iff [it] parses as an absolute URL with scheme exactly "http" or "https"; any other
  scheme or parse failure is invalid".
\<close>

definition isValidURL_ref :: "string \<Rightarrow> string option" where
  "isValidURL_ref s =
     (case url_scheme s of
        None \<Rightarrow> Some ''invalid URL''
      | Some sch \<Rightarrow>
          if sch = ''http'' \<or> sch = ''https'' then None
          else Some ''URL scheme must be http or https'')"

definition json_ws :: "char \<Rightarrow> bool" where
  "json_ws c = (c = CHR '' '' \<or> c = CHR 0x09 \<or> c = CHR 0x0A \<or> c = CHR 0x0D)"

text \<open>The characters of a string up to its closing quote, and the text after it.\<close>

fun json_string :: "string \<Rightarrow> (string \<times> string) option" where
  "json_string [] = None"
| "json_string (c # cs) =
     (if c = CHR 0x22 then Some ([], cs)
      else if c = CHR 0x5C \<or> (of_char c :: nat) < 32 then None
      else map_option (\<lambda>(s, r). (c # s, r)) (json_string cs))"

definition json_scalar :: "string \<Rightarrow> (json \<times> string) option" where
  "json_scalar s =
     (if take 1 s = [CHR 0x22] then map_option (\<lambda>(str, r). (JStr str, r)) (json_string (drop 1 s))
      else if take 4 s = ''true'' then Some (JBool True, drop 4 s)
      else if take 5 s = ''false'' then Some (JBool False, drop 5 s)
      else if take 4 s = ''null'' then Some (JNull, drop 4 s)
      else (let ds = takeWhile is_digit s; r = dropWhile is_digit s
            in if ds = [] \<or> (1 < length ds \<and> hd ds = CHR ''0'') \<or> take 1 r \<in> {''.'', ''e'', ''E''}
               then None else Some (JNum ds, r)))"

fun json_members :: "nat \<Rightarrow> string \<Rightarrow> ((string \<times> json) list \<times> string) option" where
  "json_members 0 s = None"
| "json_members (Suc n) s =
     (let s1 = dropWhile json_ws s
      in if take 1 s1 \<noteq> [CHR 0x22] then None
         else (case json_string (drop 1 s1) of
                 None \<Rightarrow> None
               | Some (key, s2) \<Rightarrow>
                   (let s3 = dropWhile json_ws s2
                    in if take 1 s3 \<noteq> '':'' then None
                       else (case json_scalar (dropWhile json_ws (drop 1 s3)) of
                               None \<Rightarrow> None
                             | Some (v, s4) \<Rightarrow>
                                 (let s5 = dropWhile json_ws s4
                                  in if take 1 s5 = '','' then
                                       map_option (\<lambda>(kvs, r). ((key, v) # kvs, r))
                                         (json_members n (drop 1 s5))
                                     else if take 1 s5 = ''}'' then Some ([(key, v)], drop 1 s5)
                                     else None)))))"

definition JSON_parse_ref :: "string \<Rightarrow> json option" where
  "JSON_parse_ref s =
     (let s1 = dropWhile json_ws s
      in if take 1 s1 \<noteq> ''{'' then None
         else if take 1 (dropWhile json_ws (drop 1 s1)) = ''}''
         then (if dropWhile json_ws (drop 1 (dropWhile json_ws (drop 1 s1))) = []
               then Some (JObj []) else None)
         else (case json_members (length s) (drop 1 s1) of
                 None \<Rightarrow> None
               | Some (kvs, r) \<Rightarrow>
                   if dropWhile json_ws r = []
                   then Some (JObj (fold (\<lambda>(k, v) al. AList.update k v al) kvs []))
                   else None))"

text \<open>
  \<^verbatim>\<open>json.Unmarshal\<close> into a \<^verbatim>\<open>map[string]string\<close> on the fragment: it returns an error when
  a value of the object is a number or a boolean; \<^verbatim>\<open>null\<close> gives the empty string.
\<close>

fun string_values :: "(string \<times> json) list \<Rightarrow> (string \<times> string) list option" where
  "string_values [] = Some []"
| "string_values ((k, JStr s) # kvs) = map_option (\<lambda>r. (k, s) # r) (string_values kvs)"
| "string_values ((k, JNull) # kvs) = map_option (\<lambda>r. (k, []) # r) (string_values kvs)"
| "string_values ((k, v) # kvs) = None"

definition json_Unmarshal_ref :: "string \<Rightarrow> (string \<times> string) list option" where
  "json_Unmarshal_ref s =
     (case JSON_parse_ref s of
        Some (JObj kvs) \<Rightarrow> string_values kvs
      | _ \<Rightarrow> None)"

text \<open>
  Sample values for the network constants, which are declared in another file of the
  package; the URL check is the reference one, and \<^verbatim>\<open>ERST_RPC_TOKEN\<close> is unset.
\<close>

definition example_env :: go_env where
  "example_env =
     \<lparr> Mainnet = ''mainnet'',
       Testnet = ''testnet'',
       Futurenet = ''futurenet'',
       MainnetHorizonURL = ''https://horizon.stellar.org/'',
       TestnetHorizonURL = ''https://horizon-testnet.stellar.org/'',
       FuturenetHorizonURL = ''https://horizon-futurenet.stellar.org/'',
       MainnetSorobanURL = ''https://mainnet.sorobanrpc.com'',
       TestnetSorobanURL = ''https://soroban-testnet.stellar.org'',
       FuturenetSorobanURL = ''https://rpc-futurenet.stellar.org'',
       MainnetConfig =
         \<lparr> Name = ''mainnet'',
           net_HorizonURL = ''https://horizon.stellar.org/'',
           SorobanRPCURL = ''https://mainnet.sorobanrpc.com'',
           NetworkPassphrase = ''Public Global Stellar Network ; September 2015'' \<rparr>,
       TestnetConfig =
         \<lparr> Name = ''testnet'',
           net_HorizonURL = ''https://horizon-testnet.stellar.org/'',
           SorobanRPCURL = ''https://soroban-testnet.stellar.org'',
           NetworkPassphrase = ''Test SDF Network ; September 2015'' \<rparr>,
       FuturenetConfig =
         \<lparr> Name = ''futurenet'',
           net_HorizonURL = ''https://horizon-futurenet.stellar.org/'',
           SorobanRPCURL = ''https://rpc-futurenet.stellar.org'',
           NetworkPassphrase = ''Test SDF Future Network ; October 2022'' \<rparr>,
       isValidURL = isValidURL_ref,
       ERST_RPC_TOKEN = [] \<rparr>"

section \<open>Properties of the configuration parser\<close>

subsection \<open>URL lists\<close>

lemma filter_isValidUrl_fst:
  "fst (filter_isValidUrl up urls) = filter (\<lambda>u. fst (isValidUrl up u)) urls"
  by (induction urls) (auto split: prod.splits)

lemma filter_isValidUrl_snd:
  "snd (filter_isValidUrl up urls) =
     map (\<lambda>u. ''[WARN]  Invalid RPC URL skipped: '' @ u) (filter (\<lambda>u. up u = None) urls)"
  by (induction urls) (auto simp: isValidUrl_def split: prod.splits option.splits)

lemma parseUrls_Inr_D:
  "parseUrls up input = (ws, Inr urls) \<Longrightarrow>
   urls \<noteq> [] \<and> urls = filter (\<lambda>u. fst (isValidUrl up u)) (candidates input)"
  using filter_isValidUrl_fst[of up "candidates input"]
  by (auto simp: parseUrls_def split: prod.splits if_splits)

text \<open>
  C7, as the code has it. The candidates of a comma-delimited string are its pieces,
  each trimmed; the candidates of a list are its entries as they are given, not
  trimmed. \<open>parseUrls\<close> returns exactly the candidates that pass \<open>isValidUrl\<close>, in
  their order, and throws if and only if none passes. Dropping an entry is not fatal;
  a warning is written for each candidate that does not parse as a URL, and for no
  other.
\<close>

theorem parseUrls_result:
  "fst (parseUrls up input) =
     map (\<lambda>u. ''[WARN]  Invalid RPC URL skipped: '' @ u)
       (filter (\<lambda>u. up u = None)
          (case input of UrlList xs \<Rightarrow> xs | UrlString s \<Rightarrow> map trim (split_on CHR '','' s)))
   \<and> snd (parseUrls up (UrlList xs)) =
       (if filter (\<lambda>u. fst (isValidUrl up u)) xs = []
        then Inl (Error ''No valid RPC URLs provided'')
        else Inr (filter (\<lambda>u. fst (isValidUrl up u)) xs))
   \<and> snd (parseUrls up (UrlString s)) =
       (if filter (\<lambda>u. fst (isValidUrl up u)) (map trim (split_on CHR '','' s)) = []
        then Inl (Error ''No valid RPC URLs provided'')
        else Inr (filter (\<lambda>u. fst (isValidUrl up u)) (map trim (split_on CHR '','' s))))"
proof -
  have r: "parseUrls up i =
      (snd (filter_isValidUrl up (candidates i)),
       if fst (filter_isValidUrl up (candidates i)) = []
       then Inl (Error ''No valid RPC URLs provided'')
       else Inr (fst (filter_isValidUrl up (candidates i))))" for i
    by (simp add: parseUrls_def split: prod.splits)
  show ?thesis
    by (simp add: r filter_isValidUrl_fst filter_isValidUrl_snd candidates_def)
qed

text \<open>
  C7, witness: the string \<^verbatim>\<open>"https://a.com,not-a-url"\<close> gives the one valid URL and one
  warning.
\<close>

theorem parseUrls_result_witness:
  "parseUrls url_protocol_ref (UrlString ''https://a.com,not-a-url'') =
     ([''[WARN]  Invalid RPC URL skipped: not-a-url''], Inr [''https://a.com''])"
proof -
  have c: "trim ''https://a.com'' = ''https://a.com''" "trim ''not-a-url'' = ''not-a-url''"
    by code_simp+
  have p: "url_protocol_ref ''https://a.com'' = Some ''https:''"
    "url_protocol_ref ''not-a-url'' = None"
    by code_simp+
  from parseUrls_result[of url_protocol_ref "UrlString ''https://a.com,not-a-url''" "[]"
      "''https://a.com,not-a-url''"]
  show ?thesis
    by (simp add: c p isValidUrl_def prod_eq_iff)
qed

text \<open>
  C7, counterexample to the claim as stated ("trims each candidate", "drops invalid
  entries ... with a warning"): an entry of a list is returned with its spaces, and
  an entry that parses as a URL of another scheme is dropped with no warning.
\<close>

theorem parseUrls_claim_counterexample:
  "parseUrls url_protocol_ref (UrlList ['' https://a.com '']) = ([], Inr ['' https://a.com ''])
   \<and> trim '' https://a.com '' = ''https://a.com''
   \<and> parseUrls url_protocol_ref (UrlString ''https://a.com,ftp://wrong.com'') =
       ([], Inr [''https://a.com''])"
  by code_simp

subsection \<open>Loading the configuration\<close>

lemma loadConfig_no_source:
  "\<not> truthy_url_input (urlInput options env) \<Longrightarrow>
   loadConfig up jp options env =
     ([], Inl (Error ''No RPC URLs configured. Use --rpc flag or STELLAR_RPC_URLS env variable''))"
  by (simp add: loadConfig_def)

lemma loadConfig_parse_error:
  "urlInput options env = Some input \<Longrightarrow> truthy_url_input (Some input) \<Longrightarrow>
   parseUrls up input = (ws, Inl e) \<Longrightarrow>
   loadConfig up jp options env = (ws, Inl e)"
  by (simp add: loadConfig_def)

lemma loadConfig_success:
  assumes "urlInput options env = Some input"
    and "truthy_url_input (Some input)"
    and "parseUrls up input = (ws, Inr urls)"
  shows "\<exists>cfg. loadConfig up jp options env = (ws, Inr cfg)
          \<and> cfg_urls cfg = urls
          \<and> cfg_timeout cfg = or_default (opt_timeout options) 30000
          \<and> cfg_retries cfg = or_default (opt_retries options) 3
          \<and> cfg_retryDelay cfg = 1000
          \<and> cfg_circuitBreakerThreshold cfg = 5
          \<and> cfg_circuitBreakerTimeout cfg = 60000
          \<and> cfg_maxRedirects cfg = 5
          \<and> cfg_headers cfg = (case resolve_headers jp options env of
                                 None \<Rightarrow> None
                               | Some h \<Rightarrow> if h = [] then None else Some h)"
  using assms by (simp add: loadConfig_def Let_def split: option.splits)

lemma loadConfig_Inr_D:
  assumes "snd (loadConfig up jp options env) = Inr cfg"
  obtains input ws where "urlInput options env = Some input" "truthy_url_input (Some input)"
    "parseUrls up input = (ws, Inr (cfg_urls cfg))"
    "cfg_timeout cfg = or_default (opt_timeout options) 30000"
    "cfg_retries cfg = or_default (opt_retries options) 3"
    "cfg_headers cfg = (case resolve_headers jp options env of
                          None \<Rightarrow> None
                        | Some h \<Rightarrow> if h = [] then None else Some h)"
proof (cases "truthy_url_input (urlInput options env)")
  case False
  with assms show ?thesis by (simp add: loadConfig_no_source)
next
  case True
  then obtain input where i: "urlInput options env = Some input"
    by (cases "urlInput options env") auto
  obtain ws r where p: "parseUrls up input = (ws, r)" by (cases "parseUrls up input")
  show ?thesis
  proof (cases r)
    case (Inl e)
    with assms i True p show ?thesis by (simp add: loadConfig_parse_error)
  next
    case (Inr urls)
    with p have p': "parseUrls up input = (ws, Inr urls)" by simp
    from i True have t: "truthy_url_input (Some input)" by simp
    from loadConfig_success[OF i t p', of jp] obtain cfg' where
      l: "loadConfig up jp options env = (ws, Inr cfg')"
      and f: "cfg_urls cfg' = urls"
        "cfg_timeout cfg' = or_default (opt_timeout options) 30000"
        "cfg_retries cfg' = or_default (opt_retries options) 3"
        "cfg_headers cfg' = (case resolve_headers jp options env of
                          None \<Rightarrow> None
                        | Some h \<Rightarrow> if h = [] then None else Some h)"
      by blast
    from l assms have "cfg' = cfg" by simp
    with f p' i t that show ?thesis by blast
  qed
qed

lemma resolve_headers_sources:
  "resolve_headers jp options env =
     (case opt_headers options of
        Some (HeaderRecord r) \<Rightarrow> Some r
      | Some (HeaderString s) \<Rightarrow>
          if s \<noteq> [] then Some (parseHeaders jp s)
          else (case STELLAR_RPC_HEADERS env of
                  None \<Rightarrow> None
                | Some e \<Rightarrow> if e \<noteq> [] then Some (parseHeaders jp e) else None)
      | None \<Rightarrow>
          (case STELLAR_RPC_HEADERS env of
             None \<Rightarrow> None
           | Some e \<Rightarrow> if e \<noteq> [] then Some (parseHeaders jp e) else None))"
  by (simp add: resolve_headers_def split: option.splits header_input.splits)

text \<open>
  C5. A source is present when it is truthy: the option \<^verbatim>\<open>rpc\<close> when it is a list or a
  string that is not empty, the variable \<^verbatim>\<open>STELLAR_RPC_URLS\<close> when it is set and not empty.
  The URLs of the result, or the error, are those \<open>parseUrls\<close> gives for the option when
  it is present, and otherwise for the variable; with neither present \<open>loadConfig\<close>
  throws the configuration error; and a configuration returned holds at least
  one URL, all of them valid.
\<close>

theorem loadConfig_endpoint_source:
  "(\<forall>input. opt_rpc options = Some input \<and> truthy_url_input (Some input) \<longrightarrow>
      map_sum id cfg_urls (snd (loadConfig up jp options env)) = snd (parseUrls up input))
   \<and> (\<forall>s. \<not> truthy_url_input (opt_rpc options) \<and> STELLAR_RPC_URLS env = Some s \<and> s \<noteq> [] \<longrightarrow>
      map_sum id cfg_urls (snd (loadConfig up jp options env)) = snd (parseUrls up (UrlString s)))
   \<and> (\<not> truthy_url_input (opt_rpc options) \<and> \<not> truthy_string (STELLAR_RPC_URLS env) \<longrightarrow>
      snd (loadConfig up jp options env) =
        Inl (Error ''No RPC URLs configured. Use --rpc flag or STELLAR_RPC_URLS env variable''))
   \<and> (\<forall>cfg. snd (loadConfig up jp options env) = Inr cfg \<longrightarrow>
        cfg_urls cfg \<noteq> [] \<and> (\<forall>u \<in> set (cfg_urls cfg). fst (isValidUrl up u)))"
proof -
  have src: "map_sum id cfg_urls (snd (loadConfig up jp options env)) = snd (parseUrls up input)"
    if "urlInput options env = Some input" "truthy_url_input (Some input)" for input
  proof -
    obtain ws r where p: "parseUrls up input = (ws, r)" by (cases "parseUrls up input")
    show ?thesis
    proof (cases r)
      case (Inl e)
      with that p show ?thesis by (simp add: loadConfig_parse_error)
    next
      case (Inr urls)
      with p have "parseUrls up input = (ws, Inr urls)" by simp
      from loadConfig_success[OF that this, of jp] obtain cfg where
        "loadConfig up jp options env = (ws, Inr cfg)" "cfg_urls cfg = urls" by blast
      with p Inr show ?thesis by simp
    qed
  qed
  have a: "map_sum id cfg_urls (snd (loadConfig up jp options env)) = snd (parseUrls up input)"
    if "opt_rpc options = Some input" "truthy_url_input (Some input)" for input
    using that by (intro src) (simp_all add: urlInput_def)
  have b: "map_sum id cfg_urls (snd (loadConfig up jp options env)) = snd (parseUrls up (UrlString s))"
    if "\<not> truthy_url_input (opt_rpc options)" "STELLAR_RPC_URLS env = Some s" "s \<noteq> []" for s
    using that by (intro src) (simp_all add: urlInput_def)
  have c: "snd (loadConfig up jp options env) =
        Inl (Error ''No RPC URLs configured. Use --rpc flag or STELLAR_RPC_URLS env variable'')"
    if "\<not> truthy_url_input (opt_rpc options)" "\<not> truthy_string (STELLAR_RPC_URLS env)"
  proof -
    have "\<not> truthy_url_input (urlInput options env)"
      using that by (cases "STELLAR_RPC_URLS env") (simp_all add: urlInput_def)
    then show ?thesis by (simp add: loadConfig_no_source)
  qed
  have d: "cfg_urls cfg \<noteq> [] \<and> (\<forall>u \<in> set (cfg_urls cfg). fst (isValidUrl up u))"
    if "snd (loadConfig up jp options env) = Inr cfg" for cfg
  proof -
    from that obtain input ws where "parseUrls up input = (ws, Inr (cfg_urls cfg))"
      by (rule loadConfig_Inr_D)
    from parseUrls_Inr_D[OF this] have n: "cfg_urls cfg \<noteq> []"
      and e: "cfg_urls cfg = filter (\<lambda>u. fst (isValidUrl up u)) (candidates input)"
      by blast+
    have "\<forall>u \<in> set (cfg_urls cfg). fst (isValidUrl up u)"
      by (subst e) simp
    with n show ?thesis by simp
  qed
  from a b c d show ?thesis by blast
qed

text \<open>
  C5, witness: the option wins over the variable; without the option the variable is
  used; with neither, the call fails.
\<close>

theorem loadConfig_endpoint_source_witness:
  "map_sum id cfg_urls (snd (loadConfig url_protocol_ref JSON_parse_ref
      \<lparr>opt_rpc = Some (UrlString ''https://rpc1.com''), opt_timeout = None,
        opt_retries = None, opt_headers = None\<rparr>
      \<lparr>STELLAR_RPC_URLS = Some ''https://env1.com,https://env2.com'',
        STELLAR_RPC_HEADERS = None\<rparr>)) = Inr [''https://rpc1.com'']
   \<and> map_sum id cfg_urls (snd (loadConfig url_protocol_ref JSON_parse_ref
      \<lparr>opt_rpc = None, opt_timeout = None, opt_retries = None, opt_headers = None\<rparr>
      \<lparr>STELLAR_RPC_URLS = Some ''https://env1.com,https://env2.com'',
        STELLAR_RPC_HEADERS = None\<rparr>)) = Inr [''https://env1.com'', ''https://env2.com'']
   \<and> snd (loadConfig url_protocol_ref JSON_parse_ref
      \<lparr>opt_rpc = None, opt_timeout = None, opt_retries = None, opt_headers = None\<rparr>
      \<lparr>STELLAR_RPC_URLS = None, STELLAR_RPC_HEADERS = None\<rparr>) =
        Inl (Error ''No RPC URLs configured. Use --rpc flag or STELLAR_RPC_URLS env variable'')"
proof -
  have p1: "snd (parseUrls url_protocol_ref (UrlString ''https://rpc1.com'')) = Inr [''https://rpc1.com'']"
    by code_simp
  have p2: "snd (parseUrls url_protocol_ref (UrlString ''https://env1.com,https://env2.com'')) =
      Inr [''https://env1.com'', ''https://env2.com'']"
    by code_simp
  from loadConfig_endpoint_source[of
      "\<lparr>opt_rpc = Some (UrlString ''https://rpc1.com''), opt_timeout = None,
        opt_retries = None, opt_headers = None\<rparr>"
      url_protocol_ref JSON_parse_ref
      "\<lparr>STELLAR_RPC_URLS = Some ''https://env1.com,https://env2.com'',
        STELLAR_RPC_HEADERS = None\<rparr>"]
  have a: "map_sum id cfg_urls (snd (loadConfig url_protocol_ref JSON_parse_ref
      \<lparr>opt_rpc = Some (UrlString ''https://rpc1.com''), opt_timeout = None,
        opt_retries = None, opt_headers = None\<rparr>
      \<lparr>STELLAR_RPC_URLS = Some ''https://env1.com,https://env2.com'',
        STELLAR_RPC_HEADERS = None\<rparr>)) = Inr [''https://rpc1.com'']"
    by (simp add: p1)
  from loadConfig_endpoint_source[of
      "\<lparr>opt_rpc = None, opt_timeout = None, opt_retries = None, opt_headers = None\<rparr>"
      url_protocol_ref JSON_parse_ref
      "\<lparr>STELLAR_RPC_URLS = Some ''https://env1.com,https://env2.com'',
        STELLAR_RPC_HEADERS = None\<rparr>"]
  have b: "map_sum id cfg_urls (snd (loadConfig url_protocol_ref JSON_parse_ref
      \<lparr>opt_rpc = None, opt_timeout = None, opt_retries = None, opt_headers = None\<rparr>
      \<lparr>STELLAR_RPC_URLS = Some ''https://env1.com,https://env2.com'',
        STELLAR_RPC_HEADERS = None\<rparr>)) = Inr [''https://env1.com'', ''https://env2.com'']"
    by (simp add: p2)
  from loadConfig_endpoint_source[of
      "\<lparr>opt_rpc = None, opt_timeout = None, opt_retries = None, opt_headers = None\<rparr>"
      url_protocol_ref JSON_parse_ref
      "\<lparr>STELLAR_RPC_URLS = None, STELLAR_RPC_HEADERS = None\<rparr>"]
  have c: "snd (loadConfig url_protocol_ref JSON_parse_ref
      \<lparr>opt_rpc = None, opt_timeout = None, opt_retries = None, opt_headers = None\<rparr>
      \<lparr>STELLAR_RPC_URLS = None, STELLAR_RPC_HEADERS = None\<rparr>) =
        Inl (Error ''No RPC URLs configured. Use --rpc flag or STELLAR_RPC_URLS env variable'')"
    by simp
  from a b c show ?thesis by blast
qed

text \<open>
  C9. When the source chosen (the option \<^verbatim>\<open>rpc\<close> if present, else the variable) holds at
  least one valid URL, and the options \<^verbatim>\<open>timeout\<close> and \<^verbatim>\<open>retries\<close> are unset, \<open>loadConfig\<close>
  returns a configuration, and it has timeout 30000, retries 3, retryDelay 1000,
  circuitBreakerThreshold 5, circuitBreakerTimeout 60000 and maxRedirects 5.
\<close>

theorem loadConfig_defaults:
  assumes "urlInput options env = Some input"
    and "truthy_url_input (Some input)"
    and "snd (parseUrls up input) = Inr urls"
    and "opt_timeout options = None"
    and "opt_retries options = None"
  shows "\<exists>cfg. snd (loadConfig up jp options env) = Inr cfg
           \<and> cfg_timeout cfg = 30000 \<and> cfg_retries cfg = 3 \<and> cfg_retryDelay cfg = 1000
           \<and> cfg_circuitBreakerThreshold cfg = 5 \<and> cfg_circuitBreakerTimeout cfg = 60000
           \<and> cfg_maxRedirects cfg = 5"
proof -
  from assms(3) have "parseUrls up input = (fst (parseUrls up input), Inr urls)"
    by (simp add: prod_eq_iff)
  from loadConfig_success[OF assms(1,2) this, of jp] obtain cfg where
    "loadConfig up jp options env = (fst (parseUrls up input), Inr cfg)"
    "cfg_timeout cfg = or_default (opt_timeout options) 30000"
    "cfg_retries cfg = or_default (opt_retries options) 3"
    "cfg_retryDelay cfg = 1000" "cfg_circuitBreakerThreshold cfg = 5"
    "cfg_circuitBreakerTimeout cfg = 60000" "cfg_maxRedirects cfg = 5"
    by blast
  with assms(4,5) show ?thesis by auto
qed

text \<open>C9, witness: the call \<^verbatim>\<open>loadConfig({ rpc: 'https://rpc.com' })\<close> of the tests.\<close>

theorem loadConfig_defaults_witness:
  "\<exists>cfg. snd (loadConfig url_protocol_ref JSON_parse_ref
        \<lparr>opt_rpc = Some (UrlString ''https://rpc.com''), opt_timeout = None,
          opt_retries = None, opt_headers = None\<rparr>
        \<lparr>STELLAR_RPC_URLS = None, STELLAR_RPC_HEADERS = None\<rparr>) = Inr cfg
      \<and> cfg_timeout cfg = 30000 \<and> cfg_retries cfg = 3 \<and> cfg_retryDelay cfg = 1000
      \<and> cfg_circuitBreakerThreshold cfg = 5 \<and> cfg_circuitBreakerTimeout cfg = 60000
      \<and> cfg_maxRedirects cfg = 5"
proof -
  have u: "urlInput \<lparr>opt_rpc = Some (UrlString ''https://rpc.com''), opt_timeout = None,
          opt_retries = None, opt_headers = None\<rparr>
        \<lparr>STELLAR_RPC_URLS = None, STELLAR_RPC_HEADERS = None\<rparr> = Some (UrlString ''https://rpc.com'')"
    by (simp add: urlInput_def)
  have t: "truthy_url_input (Some (UrlString ''https://rpc.com''))"
    by simp
  have p: "snd (parseUrls url_protocol_ref (UrlString ''https://rpc.com'')) = Inr [''https://rpc.com'']"
    by code_simp
  show ?thesis
    by (rule loadConfig_defaults[OF u t p]) simp_all
qed

text \<open>
  C10. In a configuration returned by \<open>loadConfig\<close> the field \<^verbatim>\<open>headers\<close> is present if
  and only if the headers resolved from the option or the variable are a mapping that
  is not empty, and it is then that mapping; it is never the empty mapping.
\<close>

theorem loadConfig_headers_present:
  assumes "snd (loadConfig up jp options env) = Inr cfg"
  shows "(cfg_headers cfg \<noteq> None) = (\<exists>h. resolve_headers jp options env = Some h \<and> h \<noteq> [])
       \<and> cfg_headers cfg \<noteq> Some []
       \<and> (\<forall>h. cfg_headers cfg = Some h \<longrightarrow> resolve_headers jp options env = Some h)"
proof -
  have "cfg_headers cfg = (case resolve_headers jp options env of
                          None \<Rightarrow> None
                        | Some h \<Rightarrow> if h = [] then None else Some h)"
    by (rule loadConfig_Inr_D[OF assms])
  then show ?thesis
    by (cases "resolve_headers jp options env") auto
qed

text \<open>
  C10, witness: the header string \<^verbatim>\<open>"notvalid"\<close> parses to the empty mapping, and the
  configuration returned has no \<^verbatim>\<open>headers\<close>; the string \<^verbatim>\<open>"X-Auth=abc"\<close> gives the field.
\<close>

theorem loadConfig_headers_present_witness:
  "(\<exists>cfg. snd (loadConfig url_protocol_ref JSON_parse_ref
        \<lparr>opt_rpc = Some (UrlString ''https://rpc.com''), opt_timeout = None,
          opt_retries = None, opt_headers = Some (HeaderString ''notvalid'')\<rparr>
        \<lparr>STELLAR_RPC_URLS = None, STELLAR_RPC_HEADERS = None\<rparr>) = Inr cfg
      \<and> cfg_headers cfg = None)
   \<and> (\<exists>cfg. snd (loadConfig url_protocol_ref JSON_parse_ref
        \<lparr>opt_rpc = Some (UrlString ''https://rpc.com''), opt_timeout = None,
          opt_retries = None, opt_headers = Some (HeaderString ''X-Auth=abc'')\<rparr>
        \<lparr>STELLAR_RPC_URLS = None, STELLAR_RPC_HEADERS = None\<rparr>) = Inr cfg
      \<and> cfg_headers cfg = Some [(''X-Auth'', ''abc'')])"
proof -
  have l1: "snd (loadConfig url_protocol_ref JSON_parse_ref
        \<lparr>opt_rpc = Some (UrlString ''https://rpc.com''), opt_timeout = None,
          opt_retries = None, opt_headers = Some (HeaderString ''notvalid'')\<rparr>
        \<lparr>STELLAR_RPC_URLS = None, STELLAR_RPC_HEADERS = None\<rparr>) =
      Inr \<lparr>cfg_urls = [''https://rpc.com''], cfg_timeout = 30000, cfg_retries = 3,
           cfg_retryDelay = 1000, cfg_circuitBreakerThreshold = 5,
           cfg_circuitBreakerTimeout = 60000, cfg_maxRedirects = 5, cfg_headers = None\<rparr>"
    by code_simp
  have r1: "resolve_headers JSON_parse_ref
        \<lparr>opt_rpc = Some (UrlString ''https://rpc.com''), opt_timeout = None,
          opt_retries = None, opt_headers = Some (HeaderString ''notvalid'')\<rparr>
        \<lparr>STELLAR_RPC_URLS = None, STELLAR_RPC_HEADERS = None\<rparr> = Some []"
    by code_simp
  have l2: "snd (loadConfig url_protocol_ref JSON_parse_ref
        \<lparr>opt_rpc = Some (UrlString ''https://rpc.com''), opt_timeout = None,
          opt_retries = None, opt_headers = Some (HeaderString ''X-Auth=abc'')\<rparr>
        \<lparr>STELLAR_RPC_URLS = None, STELLAR_RPC_HEADERS = None\<rparr>) =
      Inr \<lparr>cfg_urls = [''https://rpc.com''], cfg_timeout = 30000, cfg_retries = 3,
           cfg_retryDelay = 1000, cfg_circuitBreakerThreshold = 5,
           cfg_circuitBreakerTimeout = 60000, cfg_maxRedirects = 5,
           cfg_headers = Some [(''X-Auth'', ''abc'')]\<rparr>"
    by code_simp
  have r2: "resolve_headers JSON_parse_ref
        \<lparr>opt_rpc = Some (UrlString ''https://rpc.com''), opt_timeout = None,
          opt_retries = None, opt_headers = Some (HeaderString ''X-Auth=abc'')\<rparr>
        \<lparr>STELLAR_RPC_URLS = None, STELLAR_RPC_HEADERS = None\<rparr> = Some [(''X-Auth'', ''abc'')]"
    by code_simp
  from loadConfig_headers_present[OF l1] r1 l1 have a: "\<exists>cfg. snd (loadConfig url_protocol_ref JSON_parse_ref
        \<lparr>opt_rpc = Some (UrlString ''https://rpc.com''), opt_timeout = None,
          opt_retries = None, opt_headers = Some (HeaderString ''notvalid'')\<rparr>
        \<lparr>STELLAR_RPC_URLS = None, STELLAR_RPC_HEADERS = None\<rparr>) = Inr cfg
      \<and> cfg_headers cfg = None"
    by simp
  from loadConfig_headers_present[OF l2] r2 l2 have b: "\<exists>cfg. snd (loadConfig url_protocol_ref JSON_parse_ref
        \<lparr>opt_rpc = Some (UrlString ''https://rpc.com''), opt_timeout = None,
          opt_retries = None, opt_headers = Some (HeaderString ''X-Auth=abc'')\<rparr>
        \<lparr>STELLAR_RPC_URLS = None, STELLAR_RPC_HEADERS = None\<rparr>) = Inr cfg
      \<and> cfg_headers cfg = Some [(''X-Auth'', ''abc'')]"
    by simp
  from a b show ?thesis by blast
qed

section \<open>Properties of the client builder\<close>

lemma apply_options_append:
  "apply_options (xs @ ys) b =
     (case apply_options xs b of
        (Some e, b') \<Rightarrow> (Some e, b')
      | (None, b') \<Rightarrow> apply_options ys b')"
  by (induction xs arbitrary: b) (auto split: prod.splits option.splits)

lemma first_invalid_None: "first_invalid env urls = None \<longleftrightarrow> (\<forall>u \<in> set urls. isValidURL env u = None)"
  by (induction urls) (auto split: option.splits)

lemma WithAltURLs_invalid:
  assumes "u \<in> set urls" and "isValidURL env u \<noteq> None"
  shows "\<exists>msg. WithAltURLs env urls b = (Some (ValidationError msg), b)"
proof -
  from assms have "first_invalid env urls \<noteq> None"
    by (auto simp: first_invalid_None)
  then obtain err where "first_invalid env urls = Some err" by auto
  then show ?thesis by (simp add: WithAltURLs_def)
qed

lemma finish_alt:
  assumes "horizonURL b \<noteq> []" and "altURLs b \<noteq> []"
  shows "\<exists>c. (case validate env b of (Some err, b') \<Rightarrow> Inl err | (None, b') \<Rightarrow> build env b') = Inr c
          \<and> HorizonURL c = horizonURL b \<and> AltURLs c = altURLs b"
  using assms by (simp add: validate_def build_def Let_def)

lemma apply_options_error_D:
  "apply_options opts b = (Some e, b2) \<Longrightarrow>
   \<exists>pre f post b1. opts = pre @ f # post \<and> apply_options pre b = (None, b1) \<and> f b1 = (Some e, b2)"
proof (induction opts arbitrary: b)
  case Nil
  then show ?case by simp
next
  case (Cons opt opts)
  obtain r b' where o: "opt b = (r, b')" by (cases "opt b")
  show ?case
  proof (cases r)
    case None
    with Cons.prems o have "apply_options opts b' = (Some e, b2)" by simp
    from Cons.IH[OF this] obtain pre f post b1 where
      "opts = pre @ f # post" "apply_options pre b' = (None, b1)" "f b1 = (Some e, b2)"
      by blast
    with o None have "opt # opts = (opt # pre) @ f # post \<and>
        apply_options (opt # pre) b = (None, b1) \<and> f b1 = (Some e, b2)"
      by simp
    then show ?thesis by blast
  next
    case (Some e')
    with Cons.prems o have "e' = e" "b' = b2" by simp_all
    with o Some have "opt # opts = [] @ opt # opts \<and> apply_options [] b = (None, b) \<and> opt b = (Some e, b2)"
      by simp
    then show ?thesis by blast
  qed
qed

lemma NewClient_Nil:
  "\<exists>c. NewClient env [] = Inr c"
  by (simp add: NewClient_def validate_def build_def Let_def)

text \<open>
  C4. When the options before \<open>f\<close> succeed and \<open>f\<close>, applied to the builder they leave,
  returns the error \<open>e\<close>, \<open>NewClient\<close> returns \<open>e\<close> and no client, whatever options
  follow \<open>f\<close>; the loop ends with the builder as \<open>f\<close> left it, so no later option is
  applied.
\<close>

theorem NewClient_first_error:
  assumes "apply_options pre (initial_builder env) = (None, b1)"
    and "f b1 = (Some e, b2)"
  shows "NewClient env (pre @ f # post) = Inl e
       \<and> apply_options (pre @ f # post) (initial_builder env) = (Some e, b2)"
  using assms by (simp add: NewClient_def apply_options_append)

text \<open>
  C4, witness: the second of three options fails; the error is its error.
\<close>

theorem NewClient_first_error_witness:
  "NewClient example_env
     [WithNetwork example_env ''testnet'',
      WithHorizonURL example_env ''not a valid url'',
      WithToken ''t''] = Inl (ValidationError ''invalid HorizonURL: invalid URL'')"
proof -
  have h1: "apply_options [WithNetwork example_env ''testnet''] (initial_builder example_env) =
      (None, (initial_builder example_env)\<lparr>network := ''testnet''\<rparr>)"
    by (simp add: WithNetwork_def)
  have v: "isValidURL example_env ''not a valid url'' = Some ''invalid URL''"
    by code_simp
  have h2: "WithHorizonURL example_env ''not a valid url''
        ((initial_builder example_env)\<lparr>network := ''testnet''\<rparr>) =
      (Some (ValidationError ''invalid HorizonURL: invalid URL''),
       (initial_builder example_env)\<lparr>network := ''testnet''\<rparr>)"
    by (simp add: WithHorizonURL_def v)
  from NewClient_first_error[where f = "WithHorizonURL example_env ''not a valid url''"
      and post = "[WithToken ''t'']", OF h1 h2]
  show ?thesis by simp
qed

text \<open>
  C3, the code at the failing input: \<^verbatim>\<open>NewClient(WithHorizonURL(""))\<close> returns a client
  whose \<^verbatim>\<open>AltURLs\<close> is the list of the empty string, while its \<^verbatim>\<open>HorizonURL\<close> is the default
  of the network.
\<close>

theorem NewClient_empty_HorizonURL:
  "\<exists>c. NewClient env [WithHorizonURL env []] = Inr c
      \<and> AltURLs c = [[]]
      \<and> HorizonURL c =
          (if getDefaultHorizonURL env (Mainnet env) = []
           then net_HorizonURL (getConfig env (Mainnet env))
           else getDefaultHorizonURL env (Mainnet env))"
  by (simp add: NewClient_def WithHorizonURL_def initial_builder_def newBuilder_def
      validate_def build_def Let_def)

text \<open>C3, the same with the sample constants.\<close>

theorem NewClient_empty_HorizonURL_example:
  "\<exists>c. NewClient example_env [WithHorizonURL example_env []] = Inr c
      \<and> AltURLs c = [[]] \<and> HorizonURL c = ''https://horizon.stellar.org/''"
  using NewClient_empty_HorizonURL[of example_env]
  by (simp add: getDefaultHorizonURL_def example_env_def)

text \<open>
  A second way to the same state: \<^verbatim>\<open>WithNetworkConfig\<close> after \<^verbatim>\<open>WithHorizonURL\<close> replaces
  the Horizon URL and leaves the alternate list of the earlier option.
\<close>

lemma NewClient_HorizonURL_then_NetworkConfig:
  assumes "isValidURL env u = None" and "u \<noteq> []"
    and "ValidateNetworkConfig env cfg = None" and "net_HorizonURL cfg \<noteq> []"
  shows "\<exists>c. NewClient env [WithHorizonURL env u, WithNetworkConfig env cfg] = Inr c
           \<and> AltURLs c = [u] \<and> HorizonURL c = net_HorizonURL cfg"
  using assms
  by (simp add: NewClient_def WithHorizonURL_def WithNetworkConfig_def validate_def
      build_def Let_def)

text \<open>
  C8. After any options that succeed, \<^verbatim>\<open>WithAltURLs\<close> of two valid URLs, the first of them
  not empty, gives a client whose \<^verbatim>\<open>HorizonURL\<close> is the first and whose \<^verbatim>\<open>AltURLs\<close> are the
  two. When an entry of the list fails the URL check, the option returns a validation
  error and leaves the builder as it was, and \<open>NewClient\<close> returns that error and no
  client.
\<close>

theorem WithAltURLs_all_or_nothing:
  assumes "apply_options pre (initial_builder env) = (None, b)"
  shows "(isValidURL env u1 = None \<and> isValidURL env u2 = None \<and> u1 \<noteq> [] \<longrightarrow>
            (\<exists>c. NewClient env (pre @ [WithAltURLs env [u1, u2]]) = Inr c
               \<and> HorizonURL c = u1 \<and> AltURLs c = [u1, u2]))
       \<and> (u \<in> set urls \<and> isValidURL env u \<noteq> None \<longrightarrow>
            (\<exists>msg. WithAltURLs env urls b = (Some (ValidationError msg), b)
               \<and> NewClient env (pre @ WithAltURLs env urls # post) = Inl (ValidationError msg)))"
proof (intro conjI impI)
  assume v: "isValidURL env u1 = None \<and> isValidURL env u2 = None \<and> u1 \<noteq> []"
  then have w: "WithAltURLs env [u1, u2] b = (None, b\<lparr>altURLs := [u1, u2], horizonURL := u1\<rparr>)"
    by (simp add: WithAltURLs_def)
  from v have "horizonURL (b\<lparr>altURLs := [u1, u2], horizonURL := u1\<rparr>) \<noteq> []"
    "altURLs (b\<lparr>altURLs := [u1, u2], horizonURL := u1\<rparr>) \<noteq> []" by simp_all
  from finish_alt[OF this, of env] assms w
  show "\<exists>c. NewClient env (pre @ [WithAltURLs env [u1, u2]]) = Inr c
               \<and> HorizonURL c = u1 \<and> AltURLs c = [u1, u2]"
    by (simp add: NewClient_def apply_options_append)
next
  assume "u \<in> set urls \<and> isValidURL env u \<noteq> None"
  then obtain msg where m: "WithAltURLs env urls b = (Some (ValidationError msg), b)"
    using WithAltURLs_invalid by blast
  with assms have "NewClient env (pre @ WithAltURLs env urls # post) = Inl (ValidationError msg)"
    by (simp add: NewClient_def apply_options_append)
  with m show "\<exists>msg. WithAltURLs env urls b = (Some (ValidationError msg), b)
               \<and> NewClient env (pre @ WithAltURLs env urls # post) = Inl (ValidationError msg)"
    by blast
qed

text \<open>
  C8, witness: the two URLs of the test \<^verbatim>\<open>TestBuilderWithAltURLs\<close>, and a list with one
  entry that is no URL.
\<close>

theorem WithAltURLs_all_or_nothing_witness:
  "(\<exists>c. NewClient example_env [WithAltURLs example_env [''https://url1.org'', ''https://url2.org'']] = Inr c
       \<and> HorizonURL c = ''https://url1.org''
       \<and> AltURLs c = [''https://url1.org'', ''https://url2.org''])
   \<and> (\<exists>msg. WithAltURLs example_env [''https://url1.org'', ''not a url''] (initial_builder example_env) =
          (Some (ValidationError msg), initial_builder example_env)
       \<and> NewClient example_env [WithAltURLs example_env [''https://url1.org'', ''not a url'']] =
          Inl (ValidationError msg))"
proof -
  have p: "apply_options [] (initial_builder example_env) = (None, initial_builder example_env)"
    by simp
  have v1: "isValidURL example_env ''https://url1.org'' = None"
    and v2: "isValidURL example_env ''https://url2.org'' = None"
    and v3: "isValidURL example_env ''not a url'' \<noteq> None"
    by code_simp+
  from WithAltURLs_all_or_nothing[OF p, of "''https://url1.org''" "''https://url2.org''"
      "''not a url''" "[''https://url1.org'', ''not a url'']" "[]"] v1 v2 v3
  show ?thesis by simp
qed

section \<open>Properties of the failure tracker\<close>

lemma cf_recordFailure:
  "consecutiveFailures (recordFailure c u t) url =
     (if u = url then consecutiveFailures c url + 1 else consecutiveFailures c url)"
  by (simp add: consecutiveFailures_def recordFailure_def update_conv')

lemma cf_recordSuccess:
  "consecutiveFailures (recordSuccess c u) url = (if u = url then 0 else consecutiveFailures c url)"
  by (simp add: consecutiveFailures_def recordSuccess_def update_conv')

lemma lf_recordFailure:
  "map_of (lastFailure (recordFailure c u t)) url =
     (if u = url then Some t else map_of (lastFailure c) url)"
  by (simp add: recordFailure_def update_conv')

lemma lf_recordSuccess:
  "map_of (lastFailure (recordSuccess c u)) url =
     (if u = url then None else map_of (lastFailure c) url)"
  by (simp add: recordSuccess_def delete_conv')

lemma run_ops_Nil: "run_ops [] c = c"
  by (simp add: run_ops_def)

lemma run_ops_Cons: "run_ops (op # ops) c = run_ops ops (apply_op op c)"
  by (simp add: run_ops_def)

lemma run_ops_append: "run_ops (xs @ ys) c = run_ops ys (run_ops xs c)"
  by (simp add: run_ops_def)

lemma cf_nonneg:
  "0 \<le> consecutiveFailures c url \<Longrightarrow> 0 \<le> consecutiveFailures (run_ops ops c) url"
proof (induction ops arbitrary: c)
  case Nil
  then show ?case by (simp add: run_ops_Nil)
next
  case (Cons op ops)
  have "0 \<le> consecutiveFailures (apply_op op c) url"
    using Cons.prems by (cases op) (simp_all add: cf_recordFailure cf_recordSuccess)
  from Cons.IH[OF this] show ?case by (simp add: run_ops_Cons)
qed

lemma cf_no_success:
  "list_all (\<lambda>op. \<not> is_success_of url op) ops \<Longrightarrow>
   consecutiveFailures (run_ops ops c) url =
     consecutiveFailures c url + int (length (filter (is_failure_of url) ops))"
proof (induction ops arbitrary: c)
  case Nil
  then show ?case by (simp add: run_ops_Nil)
next
  case (Cons op ops)
  then have r: "list_all (\<lambda>op. \<not> is_success_of url op) ops" and h: "\<not> is_success_of url op"
    by simp_all
  have "consecutiveFailures (apply_op op c) url =
      consecutiveFailures c url + (if is_failure_of url op then 1 else 0)"
    using h by (cases op) (simp_all add: cf_recordFailure cf_recordSuccess)
  with Cons.IH[OF r, of "apply_op op c"] show ?case
    by (simp add: run_ops_Cons)
qed

lemma lf_untouched:
  "list_all (\<lambda>op. \<not> is_success_of url op \<and> \<not> is_failure_of url op) ops \<Longrightarrow>
   map_of (lastFailure (run_ops ops c)) url = map_of (lastFailure c) url"
proof (induction ops arbitrary: c)
  case Nil
  then show ?case by (simp add: run_ops_Nil)
next
  case (Cons op ops)
  then have r: "list_all (\<lambda>op. \<not> is_success_of url op \<and> \<not> is_failure_of url op) ops"
    and h: "\<not> is_success_of url op" "\<not> is_failure_of url op"
    by simp_all
  have "map_of (lastFailure (apply_op op c)) url = map_of (lastFailure c) url"
    using h by (cases op) (simp_all add: lf_recordFailure lf_recordSuccess)
  with Cons.IH[OF r, of "apply_op op c"] show ?case
    by (simp add: run_ops_Cons)
qed

lemma cf_untouched:
  "list_all (\<lambda>op. \<not> is_success_of url op \<and> \<not> is_failure_of url op) ops \<Longrightarrow>
   consecutiveFailures (run_ops ops c) url = consecutiveFailures c url"
proof (induction ops arbitrary: c)
  case Nil
  then show ?case by (simp add: run_ops_Nil)
next
  case (Cons op ops)
  then have r: "list_all (\<lambda>op. \<not> is_success_of url op \<and> \<not> is_failure_of url op) ops"
    and h: "\<not> is_success_of url op" "\<not> is_failure_of url op"
    by simp_all
  have "consecutiveFailures (apply_op op c) url = consecutiveFailures c url"
    using h by (cases op) (simp_all add: cf_recordFailure cf_recordSuccess)
  with Cons.IH[OF r, of "apply_op op c"] show ?case
    by (simp add: run_ops_Cons)
qed

lemma NewClient_tracker_empty:
  "NewClient env opts = Inr c \<Longrightarrow> failures c = [] \<and> lastFailure c = []"
  by (auto simp: NewClient_def build_def Let_def split: prod.splits option.splits)

text \<open>
  C1, on the tracker modelled from the spec. Take a client returned by \<open>NewClient\<close> and
  any sequence of tracker operations that ends with operations \<open>mid\<close>, a failure of
  \<open>url\<close> recorded at time \<open>t\<close>, and operations \<open>rest\<close>, where \<open>mid\<close> holds no success of
  \<open>url\<close> and, with the failure at \<open>t\<close>, at least \<^verbatim>\<open>circuitBreakerThreshold\<close> failures of
  \<open>url\<close>, and \<open>rest\<close> holds no operation on \<open>url\<close>. Then \<open>url\<close> is eligible at time \<open>now\<close>
  if and only if \<^verbatim>\<open>circuitBreakerTimeout\<close> has elapsed since \<open>t\<close>: not before, and from
  then on. Right after \<open>recordSuccess\<close> of \<open>url\<close>, in any state, \<open>url\<close> is eligible.
\<close>

theorem circuit_breaker_eligibility:
  assumes "NewClient env opts = Inr c0"
    and "list_all (\<lambda>op. \<not> is_success_of url op) mid"
    and "list_all (\<lambda>op. \<not> is_success_of url op \<and> \<not> is_failure_of url op) rest"
    and "threshold \<le> 1 + int (length (filter (is_failure_of url) mid))"
  shows "isEligible threshold timeout (run_ops (pre @ mid @ RecordFailure url t # rest) c0) url now
           = (timeout \<le> now - t)
       \<and> isEligible threshold timeout (recordSuccess c url) url now"
proof -
  let ?c1 = "run_ops pre c0"
  let ?c2 = "run_ops mid ?c1"
  let ?c3 = "recordFailure ?c2 url t"
  let ?c4 = "run_ops rest ?c3"
  have e: "run_ops (pre @ mid @ RecordFailure url t # rest) c0 = ?c4"
    by (simp add: run_ops_append run_ops_Cons)
  from NewClient_tracker_empty[OF assms(1)] have "consecutiveFailures c0 url = 0"
    by (simp add: consecutiveFailures_def)
  then have "0 \<le> consecutiveFailures ?c1 url"
    by (intro cf_nonneg) simp
  moreover have "consecutiveFailures ?c2 url =
      consecutiveFailures ?c1 url + int (length (filter (is_failure_of url) mid))"
    by (rule cf_no_success[OF assms(2)])
  moreover have "consecutiveFailures ?c4 url = consecutiveFailures ?c3 url"
    by (rule cf_untouched[OF assms(3)])
  moreover have "consecutiveFailures ?c3 url = consecutiveFailures ?c2 url + 1"
    by (simp add: cf_recordFailure)
  ultimately have n: "\<not> consecutiveFailures ?c4 url < threshold"
    using assms(4) by linarith
  have "map_of (lastFailure ?c4) url = map_of (lastFailure ?c3) url"
    by (rule lf_untouched[OF assms(3)])
  then have l: "map_of (lastFailure ?c4) url = Some t"
    by (simp add: lf_recordFailure)
  have a: "isEligible threshold timeout ?c4 url now = (timeout \<le> now - t)"
    using n l by (simp add: isEligible_def state_of_def)
  have b: "isEligible threshold timeout (recordSuccess c url) url now"
    by (simp add: isEligible_def state_of_def cf_recordSuccess lf_recordSuccess)
  from a b e show ?thesis by simp
qed


text \<open>
  C1, witness: threshold 5, timeout 60000. After five failures of one URL, the last at
  time 5000, the URL is not eligible at time 6000, it is eligible at time 65000, and it
  is eligible at time 6000 once a success is recorded.
\<close>

theorem circuit_breaker_eligibility_witness:
  "\<exists>c0. NewClient example_env [] = Inr c0
     \<and> \<not> isEligible 5 60000
          (run_ops [RecordFailure ''u'' 1000, RecordFailure ''u'' 2000, RecordFailure ''u'' 3000,
                    RecordFailure ''u'' 4000, RecordFailure ''u'' 5000] c0) ''u'' 6000
     \<and> isEligible 5 60000
          (run_ops [RecordFailure ''u'' 1000, RecordFailure ''u'' 2000, RecordFailure ''u'' 3000,
                    RecordFailure ''u'' 4000, RecordFailure ''u'' 5000] c0) ''u'' 65000
     \<and> isEligible 5 60000
          (recordSuccess
            (run_ops [RecordFailure ''u'' 1000, RecordFailure ''u'' 2000, RecordFailure ''u'' 3000,
                      RecordFailure ''u'' 4000, RecordFailure ''u'' 5000] c0) ''u'') ''u'' 6000"
proof -
  from NewClient_Nil[of example_env] obtain c0 where c: "NewClient example_env [] = Inr c0"
    by blast
  let ?mid = "[RecordFailure ''u'' 1000, RecordFailure ''u'' 2000, RecordFailure ''u'' 3000,
               RecordFailure ''u'' 4000]"
  have m: "list_all (\<lambda>op. \<not> is_success_of ''u'' op) ?mid"
    by simp
  have r: "list_all (\<lambda>op. \<not> is_success_of ''u'' op \<and> \<not> is_failure_of ''u'' op) []"
    by simp
  have n: "(5::int) \<le> 1 + int (length (filter (is_failure_of ''u'') ?mid))"
    by simp
  note th = circuit_breaker_eligibility[OF c m r n, of 60000 "[]" 5000]
  from th[of 6000] have a: "\<not> isEligible 5 60000
          (run_ops [RecordFailure ''u'' 1000, RecordFailure ''u'' 2000, RecordFailure ''u'' 3000,
                    RecordFailure ''u'' 4000, RecordFailure ''u'' 5000] c0) ''u'' 6000"
    by simp
  from th[of 65000] have b: "isEligible 5 60000
          (run_ops [RecordFailure ''u'' 1000, RecordFailure ''u'' 2000, RecordFailure ''u'' 3000,
                    RecordFailure ''u'' 4000, RecordFailure ''u'' 5000] c0) ''u'' 65000"
    by simp
  from th[of 6000 "run_ops [RecordFailure ''u'' 1000, RecordFailure ''u'' 2000,
      RecordFailure ''u'' 3000, RecordFailure ''u'' 4000, RecordFailure ''u'' 5000] c0"]
  have d: "isEligible 5 60000
          (recordSuccess
            (run_ops [RecordFailure ''u'' 1000, RecordFailure ''u'' 2000, RecordFailure ''u'' 3000,
                      RecordFailure ''u'' 4000, RecordFailure ''u'' 5000] c0) ''u'') ''u'' 6000"
    by simp
  from c a b d show ?thesis by blast
qed

section \<open>Properties of the header parsers\<close>

subsection \<open>The TypeScript parser on JSON objects\<close>

text \<open>
  On a text that \<^verbatim>\<open>JSON.parse\<close> reads as an object, the TypeScript parser returns the
  entries of the object, in their order, each value replaced by its \<^verbatim>\<open>String\<close> form.
\<close>

lemma update_fresh:
  "k \<notin> fst ` set al \<Longrightarrow> AList.update k v al = al @ [(k, v)]"
  by (induction al) auto

lemma fold_update_distinct:
  "distinct (map fst acc @ map fst kvs) \<Longrightarrow>
   fold (\<lambda>(key, value) headers. AList.update key (f value) headers) kvs acc =
     acc @ map (\<lambda>(k, v). (k, f v)) kvs"
proof (induction kvs arbitrary: acc)
  case Nil
  then show ?case by simp
next
  case (Cons kv kvs)
  obtain k v where kv: "kv = (k, v)" by (cases kv)
  from Cons.prems kv have fresh: "k \<notin> fst ` set acc"
    by auto
  from Cons.prems kv have d: "distinct (map fst (acc @ [(k, f v)]) @ map fst kvs)"
    by auto
  from Cons.IH[OF d] fresh kv show ?case
    by (simp add: update_fresh)
qed

lemma parseHeaders_json_object:
  assumes "JSON_parse input = Some (JObj kvs)"
    and "distinct (map fst kvs)"
  shows "parseHeaders JSON_parse input = map (\<lambda>(k, v). (k, String v)) kvs"
  using assms fold_update_distinct[of "[]" kvs String]
  by (simp add: parseHeaders_def)

subsection \<open>The Go parser on delimited pairs\<close>

text \<open>
  On a text that \<^verbatim>\<open>json.Unmarshal\<close> rejects, the Go parser follows the rule of the spec
  for every segment: it splits at the first of \<^verbatim>\<open>=\<close> and \<^verbatim>\<open>:\<close>.
\<close>

lemma rtrim_Cons:
  "rev (dropWhile is_space (rev (x # m))) =
     (if is_space x \<and> rev (dropWhile is_space (rev m)) = [] then []
      else x # rev (dropWhile is_space (rev m)))"
  by (auto simp: dropWhile_append dropWhile_eq_Nil_conv)

lemma rtrim_app_nonspace:
  "\<not> is_space c \<Longrightarrow>
   rev (dropWhile is_space (rev (a @ c # t))) = a @ c # rev (dropWhile is_space (rev t))"
proof (induction a)
  case Nil
  then show ?case by (simp only: append_Nil rtrim_Cons) simp
next
  case (Cons x a)
  have "rev (dropWhile is_space (rev ((x # a) @ c # t))) =
      (if is_space x \<and> rev (dropWhile is_space (rev (a @ c # t))) = [] then []
       else x # rev (dropWhile is_space (rev (a @ c # t))))"
    by (simp only: append_Cons rtrim_Cons)
  with Cons show ?case by simp
qed

lemma ltrim_app_nonspace:
  "\<not> is_space c \<Longrightarrow> dropWhile is_space (a @ c # t) = dropWhile is_space a @ c # t"
  by (induction a) auto

lemma ltrim_rtrim_commute:
  "dropWhile is_space (rev (dropWhile is_space (rev t))) =
   rev (dropWhile is_space (rev (dropWhile is_space t)))"
proof (induction t)
  case Nil
  then show ?case by simp
next
  case (Cons x t)
  show ?case
  proof (cases "is_space x")
    case True
    have "dropWhile is_space (rev (dropWhile is_space (rev (x # t)))) =
        dropWhile is_space (rev (dropWhile is_space (rev t)))"
    proof (cases "rev (dropWhile is_space (rev t)) = []")
      case e: True
      with True have "rev (dropWhile is_space (rev (x # t))) = []"
        by (simp only: rtrim_Cons) simp
      with e show ?thesis by (simp only: dropWhile.simps)
    next
      case n: False
      with True have "rev (dropWhile is_space (rev (x # t))) = x # rev (dropWhile is_space (rev t))"
        by (simp only: rtrim_Cons) simp
      with True show ?thesis by (simp only: dropWhile.simps if_True)
    qed
    with Cons True show ?thesis by simp
  next
    case False
    have "dropWhile is_space (rev (dropWhile is_space (rev (x # t)))) =
        x # rev (dropWhile is_space (rev t))"
      using False by (simp only: rtrim_Cons) simp
    moreover have "rev (dropWhile is_space (rev (dropWhile is_space (x # t)))) =
        x # rev (dropWhile is_space (rev t))"
      using False by (simp only: dropWhile.simps if_False rtrim_Cons) simp
    ultimately show ?thesis by simp
  qed
qed

lemma trim_ltrim: "trim (dropWhile is_space s) = trim s"
  by (simp add: trim_def)

lemma trim_rtrim: "trim (rev (dropWhile is_space (rev s))) = trim s"
  by (simp add: trim_def ltrim_rtrim_commute)

lemma set_trim: "set (trim s) \<subseteq> set s"
proof -
  have "set (trim s) \<subseteq> set (rev (dropWhile is_space s))"
    unfolding trim_def set_rev by (rule subsetI) (metis set_dropWhileD set_rev)
  also have "\<dots> \<subseteq> set s"
    by (auto dest: set_dropWhileD)
  finally show ?thesis .
qed

lemma IndexAny_None: "(\<forall>x \<in> set s. x \<notin> set cs) \<Longrightarrow> IndexAny s cs = None"
  by (induction s) auto

lemma IndexAny_first:
  "(\<forall>x \<in> set a. x \<notin> set cs) \<Longrightarrow> c \<in> set cs \<Longrightarrow> IndexAny (a @ c # t) cs = Some (length a)"
  by (induction a) auto

lemma is_separator_set: "is_separator c \<longleftrightarrow> c \<in> set ''=:''"
  by (auto simp: is_separator_def)

lemma space_not_separator: "is_space c \<Longrightarrow> \<not> is_separator c"
  by (auto simp: is_space_def is_separator_def)

lemma add_part_spec:
  "add_part seg hdrs =
     (case spec_segment seg of None \<Rightarrow> hdrs | Some (k, v) \<Rightarrow> AList.update k v hdrs)"
proof (cases "dropWhile (\<lambda>c. \<not> is_separator c) seg")
  case Nil
  then have all: "\<forall>x \<in> set seg. \<not> is_separator x"
    by (simp add: dropWhile_eq_Nil_conv)
  with set_trim[of seg] have "\<forall>x \<in> set (trim seg). x \<notin> set ''=:''"
    by (auto simp: is_separator_def)
  then have "IndexAny (trim seg) ''=:'' = None"
    by (rule IndexAny_None)
  then have "add_part seg hdrs = hdrs"
    by (simp add: add_part_def Let_def)
  moreover from Nil have "spec_segment seg = None"
    by (simp add: spec_segment_def)
  ultimately show ?thesis by simp
next
  case (Cons c t)
  define tk where "tk = takeWhile (\<lambda>c. \<not> is_separator c) seg"
  have seg: "seg = tk @ c # t"
    using Cons takeWhile_dropWhile_id[of "\<lambda>c. \<not> is_separator c" seg] by (simp add: tk_def)
  have sep: "is_separator c"
    using Cons by (metis hd_dropWhile list.distinct(1) list.sel(1))
  then have ns: "\<not> is_space c"
    using space_not_separator by blast
  have tkP: "\<forall>x \<in> set tk. \<not> is_separator x"
    unfolding tk_def by (auto dest: set_takeWhileD)
  have part: "trim seg = dropWhile is_space tk @ c # rev (dropWhile is_space (rev t))"
    by (simp add: trim_def seg ltrim_app_nonspace[OF ns] rtrim_app_nonspace[OF ns])
  have "\<forall>x \<in> set (dropWhile is_space tk). x \<notin> set ''=:''"
    using tkP by (auto simp: is_separator_def dest: set_dropWhileD)
  moreover have "c \<in> set ''=:''"
    using sep by (simp add: is_separator_set)
  ultimately have idx: "IndexAny (trim seg) ''=:'' = Some (length (dropWhile is_space tk))"
    unfolding part by (rule IndexAny_first)
  have ne: "trim seg \<noteq> []"
    by (simp add: part)
  have code: "add_part seg hdrs =
      (if trim tk \<noteq> [] \<and> trim t \<noteq> [] then AList.update (trim tk) (trim t) hdrs else hdrs)"
    using ne idx by (simp add: add_part_def Let_def part trim_ltrim trim_rtrim)
  have spec: "spec_segment seg =
      (if trim tk = [] \<or> trim t = [] then None else Some (trim tk, trim t))"
    using Cons by (simp add: spec_segment_def Let_def tk_def)
  from code spec show ?thesis by simp
qed

lemma ParseHeaders_spec_pairs:
  assumes "json_Unmarshal input = None"
  shows "ParseHeaders json_Unmarshal input = spec_pairs input"
proof -
  have f: "fold add_part segs acc =
      fold (\<lambda>seg hdrs. case spec_segment seg of None \<Rightarrow> hdrs | Some (k, v) \<Rightarrow> AList.update k v hdrs)
        segs acc" for segs acc
    by (induction segs arbitrary: acc) (simp_all add: add_part_spec)
  show ?thesis
  proof (cases "input = []")
    case True
    then show ?thesis
      by (simp add: ParseHeaders_def spec_pairs_def spec_segment_def)
  next
    case False
    with assms show ?thesis
      by (simp add: ParseHeaders_def spec_pairs_def f)
  qed
qed

subsection \<open>The inputs where a parser leaves the spec\<close>

text \<open>
  C2, the Go parser at the failing input. \<^verbatim>\<open>json.Unmarshal\<close> into a \<^verbatim>\<open>map[string]string\<close>
  returns an error on \<^verbatim>\<open>{"A":"1","B":2}\<close>, because the value of \<^verbatim>\<open>B\<close> is a number. \<open>ParseHeaders\<close>
  then splits the text at its comma and at the first colon of each piece: the keys of
  the result are \<^verbatim>\<open>{"A"\<close> and \<^verbatim>\<open>"B"\<close>, with their quotes, and \<^verbatim>\<open>A\<close> and \<^verbatim>\<open>B\<close> are no keys of it.
\<close>

theorem ParseHeaders_number_value:
  assumes \<open>json_Unmarshal ''{"A":"1","B":2}'' = None\<close>
  shows \<open>ParseHeaders json_Unmarshal ''{"A":"1","B":2}'' = [(''{"A"'', ''"1"''), (''"B"'', ''2}'')]
       \<and> map_of (ParseHeaders json_Unmarshal ''{"A":"1","B":2}'') ''A'' = None
       \<and> map_of (ParseHeaders json_Unmarshal ''{"A":"1","B":2}'') ''B'' = None\<close>
proof -
  have \<open>fold add_part (split_on CHR '','' ''{"A":"1","B":2}'') [] = [(''{"A"'', ''"1"''), (''"B"'', ''2}'')]\<close>
    by code_simp
  with assms have \<open>ParseHeaders json_Unmarshal ''{"A":"1","B":2}'' = [(''{"A"'', ''"1"''), (''"B"'', ''2}'')]\<close>
    by (simp add: ParseHeaders_def)
  then show ?thesis by simp
qed

text \<open>
  C2, with the reference decoders: the Go parser gives the two quoted keys, the
  TypeScript parser gives \<^verbatim>\<open>A\<close> and \<^verbatim>\<open>B\<close> with the values \<^verbatim>\<open>"1"\<close> and \<^verbatim>\<open>"2"\<close>.
\<close>

theorem ParseHeaders_number_value_witness:
  \<open>ParseHeaders json_Unmarshal_ref ''{"A":"1","B":2}'' = [(''{"A"'', ''"1"''), (''"B"'', ''2}'')]
   \<and> map_of (ParseHeaders json_Unmarshal_ref ''{"A":"1","B":2}'') ''A'' = None
   \<and> map_of (ParseHeaders json_Unmarshal_ref ''{"A":"1","B":2}'') ''B'' = None
   \<and> parseHeaders JSON_parse_ref ''{"A":"1","B":2}'' = [(''A'', ''1''), (''B'', ''2'')]\<close>
proof -
  have u: \<open>json_Unmarshal_ref ''{"A":"1","B":2}'' = None\<close>
    by code_simp
  have t: \<open>parseHeaders JSON_parse_ref ''{"A":"1","B":2}'' = [(''A'', ''1''), (''B'', ''2'')]\<close>
    by code_simp
  from ParseHeaders_number_value[where json_Unmarshal = json_Unmarshal_ref, OF u] t
  show ?thesis by blast
qed

text \<open>
  C6, the two parsers at the failing input. On the segment \<^verbatim>\<open>a:b=c\<close>, which is no JSON,
  the TypeScript parser looks for \<^verbatim>\<open>=\<close> first and splits there: the key is \<^verbatim>\<open>a:b\<close> and the
  value \<^verbatim>\<open>c\<close>. The Go parser splits at the first of \<^verbatim>\<open>=\<close> and \<^verbatim>\<open>:\<close>, as the claim says: the
  key is \<^verbatim>\<open>a\<close> and the value \<^verbatim>\<open>b=c\<close>.
\<close>

theorem parseHeaders_separator_choice:
  assumes "JSON_parse ''a:b=c'' = None"
    and "json_Unmarshal ''a:b=c'' = None"
  shows "parseHeaders JSON_parse ''a:b=c'' = [(''a:b'', ''c'')]
       \<and> ParseHeaders json_Unmarshal ''a:b=c'' = [(''a'', ''b=c'')]"
proof -
  have "fold add_pair (split_on CHR '','' ''a:b=c'') [] = [(''a:b'', ''c'')]"
    by code_simp
  moreover have "fold add_part (split_on CHR '','' ''a:b=c'') [] = [(''a'', ''b=c'')]"
    by code_simp
  ultimately show ?thesis
    using assms by (simp add: parseHeaders_def ParseHeaders_def)
qed

text \<open>C6, with the reference decoders.\<close>

theorem parseHeaders_separator_choice_witness:
  "parseHeaders JSON_parse_ref ''a:b=c'' = [(''a:b'', ''c'')]
   \<and> ParseHeaders json_Unmarshal_ref ''a:b=c'' = [(''a'', ''b=c'')]"
proof -
  have j: "JSON_parse_ref ''a:b=c'' = None"
    by code_simp
  have u: "json_Unmarshal_ref ''a:b=c'' = None"
    by code_simp
  from parseHeaders_separator_choice[where JSON_parse = JSON_parse_ref
      and json_Unmarshal = json_Unmarshal_ref, OF j u]
  show ?thesis .
qed

end
